theory Spec2Isabelle
  imports Complex_Main
begin

section \<open>GeometryExplorer: a shallow embedding\<close>

text \<open>
  The component \<^verbatim>\<open>src/components/GeometryExplorer/GeometryExplorer.tsx\<close> keeps a
  three.js scene alive across React renders.  Its effects, event handlers and the
  per-frame callback all work by mutating objects that several closures share, so the
  model is state passing over an explicit store: every three.js object lives in a typed
  store (a list), an object reference is its index there, and \<^verbatim>\<open>new\<close> appends.
  A reference of the program never dangles, so \<open>xs ! i\<close> is only ever read at an index
  the model allocated: the statements below say so where they need it (the mesh exists,
  its shape exists), and \<open>mounted_inv\<close> shows it of every state a run reaches.

  JavaScript numbers are modelled by exact reals: \<open>0.01\<close> is one hundredth.
  A quotient whose divisor is zero (Infinity or NaN in JavaScript) is \<open>None\<close>.
\<close>

subsection \<open>three.js objects\<close>

datatype geometry_ctor =
    BoxGeometry real real real
  | SphereGeometry real real real
  | PlaneGeometry real real
  | ConeGeometry real real real
  | CylinderGeometry real real real real
  | TorusGeometry real real real real
  | TorusKnotGeometry real real real real
  | CircleGeometry real real
  | RingGeometry real real real

record geometry =
  g_ctor :: geometry_ctor
  g_disposeCalls :: nat

record material =
  mat_color :: string
  mat_wireframe :: bool
  mat_needsUpdate :: bool
  mat_disposeCalls :: nat

record mesh =
  mesh_geometry :: nat
  mesh_material :: nat
  rotation_x :: real
  rotation_y :: real

text \<open>A light: its class, colour and intensity; its position once the program has set one.\<close>

datatype light_kind = AmbientLight | DirectionalLight

record light =
  l_kind :: light_kind
  l_color :: nat
  l_intensity :: real
  l_position :: "(real \<times> real \<times> real) option"

datatype helper =
    AxesHelper real
  | GridHelper real real nat nat

datatype object_ref = LightRef nat | MeshRef nat | HelperRef nat

record scene =
  sc_background :: "nat option"
  sc_children :: "object_ref list"

record camera =
  cam_fov :: real
  cam_aspect :: "real option"
  cam_near :: real
  cam_far :: real
  cam_position :: "real \<times> real \<times> real"

record renderer =
  r_antialias :: bool
  r_size :: "(real \<times> real) option"
  r_pixelRatio :: "real option"
  r_disposeCalls :: nat

subsection \<open>Host objects\<close>

text \<open>
  The container \<^verbatim>\<open>div\<close>: its bounding rectangle and the canvases appended to it
  (a canvas is named by the renderer that owns it).
\<close>

record element =
  el_rect :: "real \<times> real"
  el_children :: "nat list"

text \<open>
  The variables of the scene effect (lines 72--141) that its three closures
  \<^verbatim>\<open>animate\<close>, \<^verbatim>\<open>handleResize\<close> and the cleanup function capture.  They are
  \<^verbatim>\<open>const\<close>: a closure sees the objects of initialisation time for ever.
\<close>

record scene_env =
  env_scene :: nat
  env_camera :: nat
  env_renderer :: nat
  env_geometry :: nat
  env_material :: nat

datatype log_message =
    LogWireframeUpdated bool
  | LogAutoRotateUpdated bool
  | LogInitScene
  | LogCleanup
  | LogGeometryReplaced
  | LogWireframeApplied bool

text \<open>The calls into the host, in the order the program makes them.\<close>

datatype event =
    ConsoleLog log_message
  | StorageSetItem string string
  | NewGeometry nat
  | SetMeshGeometry nat nat
  | GeometryDispose nat
  | MaterialDispose nat
  | RendererDispose nat
  | SceneClear nat
  | UpdateProjectionMatrix nat
  | AddResizeListener scene_env
  | RemoveResizeListener scene_env
  | RequestAnimationFrame nat
  | CancelAnimationFrame nat
  | Render nat nat nat

subsection \<open>The state\<close>

record state =
  wireframe :: bool
  autoRotate :: bool
  mountRef :: "element option"
  sceneRef :: "nat option"
  cameraRef :: "nat option"
  rendererRef :: "nat option"
  currentMeshRef :: "nat option"
  animRef :: "nat option"
  wireframeRef :: bool
  autoRotateRef :: bool
  sceneCleanup :: "scene_env option"
  geometryStore :: "geometry list"
  materialStore :: "material list"
  meshStore :: "mesh list"
  lightStore :: "light list"
  helperStore :: "helper list"
  sceneStore :: "scene list"
  cameraStore :: "camera list"
  rendererStore :: "renderer list"
  localStorage :: "string \<rightharpoonup> string"
  devicePixelRatio :: real
  resizeListeners :: "scene_env list"
  rafLast :: nat
  rafPending :: "(nat \<times> scene_env) list"
  trace :: "event list"

subsection \<open>Host primitives\<close>

definition js_div :: "real \<Rightarrow> real \<Rightarrow> real option" where
  "js_div a b = (if b = 0 then None else Some (a / b))"

definition String_of_bool :: "bool \<Rightarrow> string" where
  "String_of_bool b = (if b then ''true'' else ''false'')"

definition emit :: "event \<Rightarrow> state \<Rightarrow> state" where
  "emit e s = s\<lparr>trace := trace s @ [e]\<rparr>"

definition console_log :: "log_message \<Rightarrow> state \<Rightarrow> state" where
  "console_log m s = emit (ConsoleLog m) s"

definition getItem :: "string \<Rightarrow> (string \<rightharpoonup> string) \<Rightarrow> string option" where
  "getItem k store = store k"

definition setItem :: "string \<Rightarrow> string \<Rightarrow> state \<Rightarrow> state" where
  "setItem k v s = emit (StorageSetItem k v) (s\<lparr>localStorage := (localStorage s)(k \<mapsto> v)\<rparr>)"

text \<open>
  \<^verbatim>\<open>requestAnimationFrame\<close> hands out the handles 1, 2, 3, ... and queues the
  callback; \<^verbatim>\<open>cancelAnimationFrame\<close> removes the request with that handle.
\<close>

definition requestAnimationFrame :: "scene_env \<Rightarrow> state \<Rightarrow> nat \<times> state" where
  "requestAnimationFrame cb s =
     (Suc (rafLast s),
      emit (RequestAnimationFrame (Suc (rafLast s)))
        (s\<lparr>rafLast := Suc (rafLast s),
           rafPending := rafPending s @ [(Suc (rafLast s), cb)]\<rparr>))"

definition cancelAnimationFrame :: "nat \<Rightarrow> state \<Rightarrow> state" where
  "cancelAnimationFrame h s =
     emit (CancelAnimationFrame h)
       (s\<lparr>rafPending := filter (\<lambda>p. fst p \<noteq> h) (rafPending s)\<rparr>)"

definition addEventListener :: "scene_env \<Rightarrow> state \<Rightarrow> state" where
  "addEventListener cb s =
     emit (AddResizeListener cb)
       (s\<lparr>resizeListeners :=
            (if cb \<in> set (resizeListeners s) then resizeListeners s
             else resizeListeners s @ [cb])\<rparr>)"

definition removeEventListener :: "scene_env \<Rightarrow> state \<Rightarrow> state" where
  "removeEventListener cb s =
     emit (RemoveResizeListener cb) (s\<lparr>resizeListeners := remove1 cb (resizeListeners s)\<rparr>)"

subsection \<open>three.js primitives\<close>

definition new_geometry :: "geometry_ctor \<Rightarrow> state \<Rightarrow> nat \<times> state" where
  "new_geometry c s =
     (length (geometryStore s),
      emit (NewGeometry (length (geometryStore s)))
        (s\<lparr>geometryStore := geometryStore s @ [\<lparr>g_ctor = c, g_disposeCalls = 0\<rparr>]\<rparr>))"

definition geometry_dispose :: "nat \<Rightarrow> state \<Rightarrow> state" where
  "geometry_dispose g s =
     emit (GeometryDispose g)
       (s\<lparr>geometryStore := (geometryStore s)
            [g := (geometryStore s ! g)\<lparr>g_disposeCalls := Suc (g_disposeCalls (geometryStore s ! g))\<rparr>]\<rparr>)"

definition new_material :: "string \<Rightarrow> bool \<Rightarrow> state \<Rightarrow> nat \<times> state" where
  "new_material col wfr s =
     (length (materialStore s),
      s\<lparr>materialStore := materialStore s @
           [\<lparr>mat_color = col, mat_wireframe = wfr, mat_needsUpdate = False, mat_disposeCalls = 0\<rparr>]\<rparr>)"

definition material_dispose :: "nat \<Rightarrow> state \<Rightarrow> state" where
  "material_dispose m s =
     emit (MaterialDispose m)
       (s\<lparr>materialStore := (materialStore s)
            [m := (materialStore s ! m)\<lparr>mat_disposeCalls := Suc (mat_disposeCalls (materialStore s ! m))\<rparr>]\<rparr>)"

definition set_material_wireframe :: "nat \<Rightarrow> bool \<Rightarrow> state \<Rightarrow> state" where
  "set_material_wireframe m b s =
     s\<lparr>materialStore := (materialStore s)[m := (materialStore s ! m)\<lparr>mat_wireframe := b\<rparr>]\<rparr>"

definition set_material_needsUpdate :: "nat \<Rightarrow> bool \<Rightarrow> state \<Rightarrow> state" where
  "set_material_needsUpdate m b s =
     s\<lparr>materialStore := (materialStore s)[m := (materialStore s ! m)\<lparr>mat_needsUpdate := b\<rparr>]\<rparr>"

definition new_mesh :: "nat \<Rightarrow> nat \<Rightarrow> state \<Rightarrow> nat \<times> state" where
  "new_mesh g m s =
     (length (meshStore s),
      s\<lparr>meshStore := meshStore s @
           [\<lparr>mesh_geometry = g, mesh_material = m, rotation_x = 0, rotation_y = 0\<rparr>]\<rparr>)"

definition set_mesh_geometry :: "nat \<Rightarrow> nat \<Rightarrow> state \<Rightarrow> state" where
  "set_mesh_geometry me g s =
     emit (SetMeshGeometry me g)
       (s\<lparr>meshStore := (meshStore s)[me := (meshStore s ! me)\<lparr>mesh_geometry := g\<rparr>]\<rparr>)"

definition add_rotation_x :: "nat \<Rightarrow> real \<Rightarrow> state \<Rightarrow> state" where
  "add_rotation_x me d s =
     s\<lparr>meshStore := (meshStore s)
          [me := (meshStore s ! me)\<lparr>rotation_x := rotation_x (meshStore s ! me) + d\<rparr>]\<rparr>"

definition add_rotation_y :: "nat \<Rightarrow> real \<Rightarrow> state \<Rightarrow> state" where
  "add_rotation_y me d s =
     s\<lparr>meshStore := (meshStore s)
          [me := (meshStore s ! me)\<lparr>rotation_y := rotation_y (meshStore s ! me) + d\<rparr>]\<rparr>"

definition new_light :: "light_kind \<Rightarrow> nat \<Rightarrow> real \<Rightarrow> state \<Rightarrow> nat \<times> state" where
  "new_light k col i s =
     (length (lightStore s),
      s\<lparr>lightStore := lightStore s @
           [\<lparr>l_kind = k, l_color = col, l_intensity = i, l_position = None\<rparr>]\<rparr>)"

definition set_light_position :: "nat \<Rightarrow> real \<times> real \<times> real \<Rightarrow> state \<Rightarrow> state" where
  "set_light_position l p s =
     s\<lparr>lightStore := (lightStore s)[l := (lightStore s ! l)\<lparr>l_position := Some p\<rparr>]\<rparr>"

definition new_helper :: "helper \<Rightarrow> state \<Rightarrow> nat \<times> state" where
  "new_helper h s = (length (helperStore s), s\<lparr>helperStore := helperStore s @ [h]\<rparr>)"

definition new_scene :: "state \<Rightarrow> nat \<times> state" where
  "new_scene s =
     (length (sceneStore s),
      s\<lparr>sceneStore := sceneStore s @ [\<lparr>sc_background = None, sc_children = []\<rparr>]\<rparr>)"

definition set_scene_background :: "nat \<Rightarrow> nat \<Rightarrow> state \<Rightarrow> state" where
  "set_scene_background sc col s =
     s\<lparr>sceneStore := (sceneStore s)[sc := (sceneStore s ! sc)\<lparr>sc_background := Some col\<rparr>]\<rparr>"

definition scene_add :: "nat \<Rightarrow> object_ref list \<Rightarrow> state \<Rightarrow> state" where
  "scene_add sc objs s =
     s\<lparr>sceneStore := (sceneStore s)
          [sc := (sceneStore s ! sc)\<lparr>sc_children := sc_children (sceneStore s ! sc) @ objs\<rparr>]\<rparr>"

definition scene_clear :: "nat \<Rightarrow> state \<Rightarrow> state" where
  "scene_clear sc s =
     emit (SceneClear sc)
       (s\<lparr>sceneStore := (sceneStore s)[sc := (sceneStore s ! sc)\<lparr>sc_children := []\<rparr>]\<rparr>)"

definition new_camera :: "real \<Rightarrow> real option \<Rightarrow> real \<Rightarrow> real \<Rightarrow> state \<Rightarrow> nat \<times> state" where
  "new_camera fov aspect near far s =
     (length (cameraStore s),
      s\<lparr>cameraStore := cameraStore s @
           [\<lparr>cam_fov = fov, cam_aspect = aspect, cam_near = near, cam_far = far,
             cam_position = (0, 0, 0)\<rparr>]\<rparr>)"

definition set_camera_position :: "nat \<Rightarrow> real \<times> real \<times> real \<Rightarrow> state \<Rightarrow> state" where
  "set_camera_position c p s =
     s\<lparr>cameraStore := (cameraStore s)[c := (cameraStore s ! c)\<lparr>cam_position := p\<rparr>]\<rparr>"

definition set_camera_aspect :: "nat \<Rightarrow> real option \<Rightarrow> state \<Rightarrow> state" where
  "set_camera_aspect c a s =
     s\<lparr>cameraStore := (cameraStore s)[c := (cameraStore s ! c)\<lparr>cam_aspect := a\<rparr>]\<rparr>"

definition updateProjectionMatrix :: "nat \<Rightarrow> state \<Rightarrow> state" where
  "updateProjectionMatrix c s = emit (UpdateProjectionMatrix c) s"

definition new_renderer :: "bool \<Rightarrow> state \<Rightarrow> nat \<times> state" where
  "new_renderer aa s =
     (length (rendererStore s),
      s\<lparr>rendererStore := rendererStore s @
           [\<lparr>r_antialias = aa, r_size = None, r_pixelRatio = None, r_disposeCalls = 0\<rparr>]\<rparr>)"

definition renderer_setSize :: "nat \<Rightarrow> real \<Rightarrow> real \<Rightarrow> state \<Rightarrow> state" where
  "renderer_setSize r w h s =
     s\<lparr>rendererStore := (rendererStore s)[r := (rendererStore s ! r)\<lparr>r_size := Some (w, h)\<rparr>]\<rparr>"

definition renderer_setPixelRatio :: "nat \<Rightarrow> real \<Rightarrow> state \<Rightarrow> state" where
  "renderer_setPixelRatio r p s =
     s\<lparr>rendererStore := (rendererStore s)[r := (rendererStore s ! r)\<lparr>r_pixelRatio := Some p\<rparr>]\<rparr>"

definition renderer_dispose :: "nat \<Rightarrow> state \<Rightarrow> state" where
  "renderer_dispose r s =
     emit (RendererDispose r)
       (s\<lparr>rendererStore := (rendererStore s)
            [r := (rendererStore s ! r)\<lparr>r_disposeCalls := Suc (r_disposeCalls (rendererStore s ! r))\<rparr>]\<rparr>)"

definition renderer_render :: "nat \<Rightarrow> nat \<Rightarrow> nat \<Rightarrow> state \<Rightarrow> state" where
  "renderer_render r sc c s = emit (Render r sc c) s"


definition appendChild :: "nat \<Rightarrow> state \<Rightarrow> state" where
  "appendChild r s =
     s\<lparr>mountRef := map_option (\<lambda>el. el\<lparr>el_children := el_children el @ [r]\<rparr>) (mountRef s)\<rparr>"

definition removeChild :: "nat \<Rightarrow> state \<Rightarrow> state" where
  "removeChild r s =
     s\<lparr>mountRef := map_option (\<lambda>el. el\<lparr>el_children := remove1 r (el_children el)\<rparr>) (mountRef s)\<rparr>"

subsection \<open>The component\<close>

text \<open>
  Lines 23--56, the catalog \<^verbatim>\<open>geometries\<close>.  A factory is a closure without
  parameters; what it reads and changes is the store.  The key \<open>Circulo\<close> and its label
  carry an i with acute accent in the source, code unit 237.
\<close>

datatype geometry_key = Esfera | Plano | Cono | Cilindro | Toro | Nudo | Circulo | Anillo

record catalog_entry =
  label :: string
  create :: "state \<Rightarrow> nat \<times> state"

definition geometries :: "(geometry_key \<times> catalog_entry) list" where
  "geometries =
     [(Esfera, \<lparr>label = ''Esfera'', create = new_geometry (SphereGeometry 1 32 16)\<rparr>),
      (Plano, \<lparr>label = ''Plano'', create = new_geometry (PlaneGeometry 2 2)\<rparr>),
      (Cono, \<lparr>label = ''Cono'', create = new_geometry (ConeGeometry 1 2 16)\<rparr>),
      (Cilindro, \<lparr>label = ''Cilindro'', create = new_geometry (CylinderGeometry 1 1 2 16)\<rparr>),
      (Toro, \<lparr>label = ''Toro'', create = new_geometry (TorusGeometry 1 0.3 16 64)\<rparr>),
      (Nudo, \<lparr>label = ''Nudo Toroidal'', create = new_geometry (TorusKnotGeometry 1 0.3 100 16)\<rparr>),
      (Circulo, \<lparr>label = CHR ''C'' # CHR 0xED # ''rculo'', create = new_geometry (CircleGeometry 1 32)\<rparr>),
      (Anillo, \<lparr>label = ''Anillo'', create = new_geometry (RingGeometry 0.5 1 32)\<rparr>)]"

text \<open>
  Lines 5--20, the first render: every ref is null, the two state cells are read from
  the store, and the mirror refs start from the state cells.  Nothing of three.js exists.
\<close>

definition initial_render :: "(string \<rightharpoonup> string) \<Rightarrow> real \<Rightarrow> state" where
  "initial_render store dpr =
     (let wireframe0 = (getItem ''wireframe'' store = Some ''true'');
          autoRotate0 = (getItem ''autoRotate'' store \<noteq> Some ''false'')
      in \<lparr>wireframe = wireframe0, autoRotate = autoRotate0,
          mountRef = None, sceneRef = None, cameraRef = None, rendererRef = None,
          currentMeshRef = None, animRef = None,
          wireframeRef = wireframe0, autoRotateRef = autoRotate0,
          sceneCleanup = None,
          geometryStore = [], materialStore = [], meshStore = [], lightStore = [],
          helperStore = [], sceneStore = [], cameraStore = [], rendererStore = [],
          localStorage = store, devicePixelRatio = dpr,
          resizeListeners = [], rafLast = 0, rafPending = [], trace = []\<rparr>)"

text \<open>Lines 59--63 and 65--69, the two sync effects.\<close>

definition syncWireframeEffect :: "state \<Rightarrow> state" where
  "syncWireframeEffect s0 =
     (let s = s0\<lparr>wireframeRef := wireframe s0\<rparr>;
          s = setItem ''wireframe'' (String_of_bool (wireframe s)) s
      in console_log (LogWireframeUpdated (wireframe s)) s)"

definition syncAutoRotateEffect :: "state \<Rightarrow> state" where
  "syncAutoRotateEffect s0 =
     (let s = s0\<lparr>autoRotateRef := autoRotate s0\<rparr>;
          s = setItem ''autoRotate'' (String_of_bool (autoRotate s)) s
      in console_log (LogAutoRotateUpdated (autoRotate s)) s)"

text \<open>Lines 113--120, the per-frame callback.\<close>

definition animate :: "scene_env \<Rightarrow> state \<Rightarrow> state" where
  "animate env s0 =
     (let (h, s) = requestAnimationFrame env s0;
          s = s\<lparr>animRef := Some h\<rparr>;
          s = (case currentMeshRef s of
                 None \<Rightarrow> s
               | Some me \<Rightarrow>
                   if autoRotateRef s
                   then add_rotation_y me 0.015 (add_rotation_x me 0.01 s)
                   else s)
      in renderer_render (env_renderer env) (env_scene env) (env_camera env) s)"

text \<open>Lines 123--129.\<close>

definition handleResize :: "scene_env \<Rightarrow> state \<Rightarrow> state" where
  "handleResize env s0 =
     (case mountRef s0 of
        None \<Rightarrow> s0
      | Some el \<Rightarrow>
          let (width, height) = el_rect el;
              s = set_camera_aspect (env_camera env) (js_div width height) s0;
              s = updateProjectionMatrix (env_camera env) s
          in renderer_setSize (env_renderer env) width height s)"

text \<open>
  Lines 72--131, the body of the scene effect.  The colours are the source's
  hexadecimal literals: 0x0a0a0a = 657930, 0xffffff = 16777215, 0x444444 = 4473924,
  0x222222 = 2236962.  The effect returns its cleanup function; React keeps it, here
  in \<open>sceneCleanup\<close>, as the environment the function closes over.
\<close>

definition initSceneEffect :: "state \<Rightarrow> state" where
  "initSceneEffect s0 =
     (case mountRef s0 of
        None \<Rightarrow> s0
      | Some el \<Rightarrow>
          let s = console_log LogInitScene s0;
              (scene, s) = new_scene s;
              s = set_scene_background scene 657930 s;
              s = s\<lparr>sceneRef := Some scene\<rparr>;
              (width, height) = el_rect el;
              (camera, s) = new_camera 75 (js_div width height) 0.1 1000 s;
              s = set_camera_position camera (3, 2, 4) s;
              s = s\<lparr>cameraRef := Some camera\<rparr>;
              s = (case rendererRef s of
                     None \<Rightarrow> s
                   | Some old \<Rightarrow>
                       let s = renderer_dispose old s
                       in if old \<in> set (el_children el) then removeChild old s else s);
              (renderer, s) = new_renderer True s;
              s = renderer_setSize renderer width height s;
              s = renderer_setPixelRatio renderer (devicePixelRatio s) s;
              s = s\<lparr>rendererRef := Some renderer\<rparr>;
              s = appendChild renderer s;
              (ambient, s) = new_light AmbientLight 16777215 0.35 s;
              (dir, s) = new_light DirectionalLight 16777215 0.9 s;
              s = set_light_position dir (5, 5, 5) s;
              s = scene_add scene [LightRef ambient, LightRef dir] s;
              (geometry, s) = new_geometry (BoxGeometry 1.5 1.5 1.5) s;
              (material, s) = new_material ''#44aa88'' (wireframeRef s) s;
              (cube, s) = new_mesh geometry material s;
              s = s\<lparr>currentMeshRef := Some cube\<rparr>;
              s = scene_add scene [MeshRef cube] s;
              (axes, s) = new_helper (AxesHelper 2) s;
              (grid, s) = new_helper (GridHelper 10 10 4473924 2236962) s;
              s = scene_add scene [HelperRef axes, HelperRef grid] s;
              env = \<lparr>env_scene = scene, env_camera = camera, env_renderer = renderer,
                     env_geometry = geometry, env_material = material\<rparr>;
              s = animate env s;
              s = addEventListener env s
          in s\<lparr>sceneCleanup := Some env\<rparr>)"

text \<open>Lines 132--140, the cleanup function of the scene effect.\<close>

definition cleanup :: "scene_env \<Rightarrow> state \<Rightarrow> state" where
  "cleanup env s0 =
     (let s = console_log LogCleanup s0;
          s = removeEventListener env s;
          s = (case animRef s of
                 None \<Rightarrow> s
               | Some h \<Rightarrow> if h \<noteq> 0 then cancelAnimationFrame h s else s);
          s = renderer_dispose (env_renderer env) s;
          s = geometry_dispose (env_geometry env) s;
          s = material_dispose (env_material env) s
      in scene_clear (env_scene env) s)"

text \<open>Lines 144--152.\<close>

definition replaceGeometry :: "(state \<Rightarrow> nat \<times> state) \<Rightarrow> state \<Rightarrow> state" where
  "replaceGeometry createGeometry s0 =
     (case currentMeshRef s0 of
        None \<Rightarrow> s0
      | Some me \<Rightarrow>
          let oldGeometry = mesh_geometry (meshStore s0 ! me);
              (newGeometry, s) = createGeometry s0;
              s = set_mesh_geometry me newGeometry s;
              s = geometry_dispose oldGeometry s
          in console_log LogGeometryReplaced s)"

text \<open>Lines 155--162.\<close>

definition applyWireframeEffect :: "state \<Rightarrow> state" where
  "applyWireframeEffect s0 =
     (case currentMeshRef s0 of
        None \<Rightarrow> s0
      | Some me \<Rightarrow>
          let mat = mesh_material (meshStore s0 ! me);
              s = set_material_wireframe mat (wireframe s0) s0;
              s = set_material_needsUpdate mat True s
          in console_log (LogWireframeApplied (wireframe s0)) s)"

subsection \<open>The life of the component\<close>

text \<open>
  React attaches the container to \<^verbatim>\<open>mountRef\<close> and then runs the four effects in
  the order of their declaration.  A click handler sets a state cell; the commit that
  follows runs the effects whose dependency changed, in the same order.  The browser
  runs, per frame, the callbacks that were pending when the frame began, and hands a
  resize event to every registered listener.  Unmounting runs the cleanup function the
  scene effect returned and detaches the container.
\<close>

definition mount :: "(string \<rightharpoonup> string) \<Rightarrow> real \<Rightarrow> real \<times> real \<Rightarrow> state" where
  "mount store dpr rect =
     (let s = (initial_render store dpr)\<lparr>mountRef := Some \<lparr>el_rect = rect, el_children = []\<rparr>\<rparr>;
          s = syncWireframeEffect s;
          s = syncAutoRotateEffect s;
          s = initSceneEffect s
      in applyWireframeEffect s)"

definition clickWireframe :: "state \<Rightarrow> state" where
  "clickWireframe s0 =
     (let s = s0\<lparr>wireframe := \<not> wireframe s0\<rparr>;
          s = syncWireframeEffect s
      in applyWireframeEffect s)"

definition clickAutoRotate :: "state \<Rightarrow> state" where
  "clickAutoRotate s0 = syncAutoRotateEffect (s0\<lparr>autoRotate := \<not> autoRotate s0\<rparr>)"

definition clickGeometry :: "geometry_key \<Rightarrow> state \<Rightarrow> state" where
  "clickGeometry k s =
     (case map_of geometries k of
        None \<Rightarrow> s
      | Some entry \<Rightarrow> replaceGeometry (create entry) s)"

definition fireFrame :: "state \<Rightarrow> state" where
  "fireFrame s =
     foldl (\<lambda>s' p. animate (snd p) s') (s\<lparr>rafPending := []\<rparr>) (rafPending s)"

definition advanceFrames :: "nat \<Rightarrow> state \<Rightarrow> state" where
  "advanceFrames n s = (fireFrame ^^ n) s"

definition windowResize :: "real \<times> real \<Rightarrow> state \<Rightarrow> state" where
  "windowResize rect s0 =
     (let s = s0\<lparr>mountRef := map_option (\<lambda>el. el\<lparr>el_rect := rect\<rparr>) (mountRef s0)\<rparr>
      in foldl (\<lambda>s' cb. handleResize cb s') s (resizeListeners s))"

definition unmount :: "state \<Rightarrow> state" where
  "unmount s =
     (case sceneCleanup s of
        None \<Rightarrow> s\<lparr>mountRef := None\<rparr>
      | Some env \<Rightarrow> (cleanup env s)\<lparr>sceneCleanup := None, mountRef := None\<rparr>)"

datatype action =
    ClickGeometry geometry_key
  | ClickAutoRotate
  | ClickWireframe
  | AnimationFrame
  | WindowResize "real \<times> real"

fun step :: "action \<Rightarrow> state \<Rightarrow> state" where
  "step (ClickGeometry k) s = clickGeometry k s"
| "step ClickAutoRotate s = clickAutoRotate s"
| "step ClickWireframe s = clickWireframe s"
| "step AnimationFrame s = fireFrame s"
| "step (WindowResize rect) s = windowResize rect s"

definition run :: "action list \<Rightarrow> state \<Rightarrow> state" where
  "run acts s = foldl (\<lambda>s' a. step a s') s acts"


subsection \<open>Vocabulary of the properties\<close>

text \<open>The host calls made on the way from \<open>s\<close> to a later state \<open>s'\<close>.\<close>

definition emitted :: "state \<Rightarrow> state \<Rightarrow> event list" where
  "emitted s s' = drop (length (trace s)) (trace s')"

text \<open>\<open>occurs_before a b es\<close>: \<open>a\<close> occurs in \<open>es\<close> and \<open>b\<close> occurs after its first occurrence.\<close>

fun occurs_before :: "event \<Rightarrow> event \<Rightarrow> event list \<Rightarrow> bool" where
  "occurs_before a b [] = False"
| "occurs_before a b (x # xs) = (if x = a then b \<in> set xs else occurs_before a b xs)"

text \<open>The mesh \<open>me\<close> exists and the shape attached to it exists and has not been disposed.\<close>

definition attached_live :: "nat \<Rightarrow> state \<Rightarrow> bool" where
  "attached_live me s =
     (me < length (meshStore s) \<and>
      mesh_geometry (meshStore s ! me) < length (geometryStore s) \<and>
      g_disposeCalls (geometryStore s ! mesh_geometry (meshStore s ! me)) = 0)"

text \<open>The shapes of the store that no \<^verbatim>\<open>dispose\<close> call has reached.\<close>

definition undisposed :: "state \<Rightarrow> nat list" where
  "undisposed s =
     filter (\<lambda>g. g_disposeCalls (geometryStore s ! g) = 0) [0..<length (geometryStore s)]"

text \<open>The environment the scene effect builds when it runs in state \<open>s\<close>.\<close>

definition init_env :: "state \<Rightarrow> scene_env" where
  "init_env s =
     \<lparr>env_scene = length (sceneStore s), env_camera = length (cameraStore s),
      env_renderer = length (rendererStore s), env_geometry = length (geometryStore s),
      env_material = length (materialStore s)\<rparr>"

text \<open>The environment of the first mount: every object is the first of its store.\<close>

definition env0 :: scene_env where
  "env0 = \<lparr>env_scene = 0, env_camera = 0, env_renderer = 0, env_geometry = 0, env_material = 0\<rparr>"

text \<open>
  What holds of every state between mounting and unmounting: the one mesh and its one
  material, the cleanup closure over the objects of initialisation, the shape attached
  to the mesh being the one allocated last and the only one not disposed, one pending
  frame request, one resize listener.
\<close>

definition mounted_inv :: "state \<Rightarrow> bool" where
  "mounted_inv s \<longleftrightarrow>
     currentMeshRef s = Some 0 \<and> length (meshStore s) = 1 \<and>
     sceneCleanup s = Some env0 \<and>
     mesh_material (meshStore s ! 0) = 0 \<and> length (materialStore s) = 1 \<and>
     geometryStore s \<noteq> [] \<and>
     mesh_geometry (meshStore s ! 0) = length (geometryStore s) - 1 \<and>
     g_ctor (geometryStore s ! 0) = BoxGeometry 1.5 1.5 1.5 \<and>
     (\<forall>g < length (geometryStore s).
        g_disposeCalls (geometryStore s ! g) = (if Suc g = length (geometryStore s) then 0 else 1)) \<and>
     rafPending s = [(rafLast s, env0)] \<and> animRef s = Some (rafLast s) \<and> 0 < rafLast s \<and>
     resizeListeners s = [env0] \<and>
     length (rendererStore s) = 1 \<and> length (sceneStore s) = 1 \<and> length (cameraStore s) = 1"

text \<open>The four preference cells: the two state cells and their mirrors.\<close>

definition prefs :: "state \<Rightarrow> bool \<times> bool \<times> bool \<times> bool" where
  "prefs s = (wireframe s, autoRotate s, wireframeRef s, autoRotateRef s)"

text \<open>Concrete runs: an empty store, pixel ratio 1, a container of 800 by 600.\<close>

definition example_initial :: state where
  "example_initial = initial_render Map.empty 1"

definition example_mounted :: state where
  "example_mounted = mount Map.empty 1 (800, 600)"

definition example_replaced :: state where
  "example_replaced = clickGeometry Esfera example_mounted"

section \<open>Symbolic execution\<close>

lemmas host_defs = emit_def console_log_def getItem_def setItem_def requestAnimationFrame_def
  cancelAnimationFrame_def addEventListener_def removeEventListener_def appendChild_def
  removeChild_def String_of_bool_def

lemmas three_defs = new_geometry_def geometry_dispose_def new_material_def material_dispose_def
  set_material_wireframe_def set_material_needsUpdate_def new_mesh_def set_mesh_geometry_def
  add_rotation_x_def add_rotation_y_def new_light_def set_light_position_def new_helper_def
  new_scene_def
  set_scene_background_def scene_add_def scene_clear_def new_camera_def set_camera_position_def
  set_camera_aspect_def updateProjectionMatrix_def new_renderer_def renderer_setSize_def
  renderer_setPixelRatio_def renderer_dispose_def renderer_render_def

lemma nth_second_appended: "(xs @ [a, b]) ! Suc (length xs) = b"
  by (simp add: nth_append)

lemma update_second_appended: "(xs @ [a, b])[Suc (length xs) := c] = xs @ [a, c]"
  by (simp add: list_update_append)

text \<open>One statement of a block at a time: evaluate the bound expression, then continue.\<close>

lemma let_run: "e = v \<Longrightarrow> f v = r \<Longrightarrow> Let e f = r"
  by simp

lemma let_run_pair: "e = (a, b) \<Longrightarrow> g a b = r \<Longrightarrow> Let e (case_prod g) = r"
  by simp

lemma catalog_create:
  "(k, entry) \<in> set geometries \<Longrightarrow> \<exists>c. create entry = new_geometry c"
  by (auto simp: geometries_def)

lemma catalog_map_of:
  "\<exists>entry c. map_of geometries k = Some entry \<and> create entry = new_geometry c"
  by (cases k) (auto simp: geometries_def)

lemma replaceGeometry_closed:
  assumes "currentMeshRef s = Some me"
  shows "replaceGeometry (new_geometry c) s =
     s\<lparr>geometryStore := (geometryStore s @ [\<lparr>g_ctor = c, g_disposeCalls = 0\<rparr>])
          [mesh_geometry (meshStore s ! me) :=
             ((geometryStore s @ [\<lparr>g_ctor = c, g_disposeCalls = 0\<rparr>]) ! mesh_geometry (meshStore s ! me))
               \<lparr>g_disposeCalls :=
                  Suc (g_disposeCalls ((geometryStore s @ [\<lparr>g_ctor = c, g_disposeCalls = 0\<rparr>])
                        ! mesh_geometry (meshStore s ! me)))\<rparr>],
        meshStore := (meshStore s)[me := (meshStore s ! me)\<lparr>mesh_geometry := length (geometryStore s)\<rparr>],
        trace := trace s @ [NewGeometry (length (geometryStore s)),
                            SetMeshGeometry me (length (geometryStore s)),
                            GeometryDispose (mesh_geometry (meshStore s ! me)),
                            ConsoleLog LogGeometryReplaced]\<rparr>"
  using assms
  by (simp add: replaceGeometry_def host_defs three_defs Let_def)


lemma animate_closed:
  "animate env s =
     s\<lparr>rafLast := Suc (rafLast s),
       rafPending := rafPending s @ [(Suc (rafLast s), env)],
       animRef := Some (Suc (rafLast s)),
       meshStore :=
         (case currentMeshRef s of
            None \<Rightarrow> meshStore s
          | Some me \<Rightarrow>
              if autoRotateRef s
              then ((meshStore s)[me := (meshStore s ! me)\<lparr>rotation_x := rotation_x (meshStore s ! me) + 0.01\<rparr>])
                     [me := ((meshStore s)[me := (meshStore s ! me)\<lparr>rotation_x := rotation_x (meshStore s ! me) + 0.01\<rparr>] ! me)
                        \<lparr>rotation_y := rotation_y ((meshStore s)[me := (meshStore s ! me)\<lparr>rotation_x := rotation_x (meshStore s ! me) + 0.01\<rparr>] ! me) + 0.015\<rparr>]
              else meshStore s),
       trace := trace s @ [RequestAnimationFrame (Suc (rafLast s)),
                           Render (env_renderer env) (env_scene env) (env_camera env)]\<rparr>"
proof (cases "currentMeshRef s")
  case None
  then show ?thesis by (simp add: animate_def host_defs three_defs)
next
  case (Some me)
  then show ?thesis by (cases "autoRotateRef s") (simp_all add: animate_def host_defs three_defs)
qed

lemma initSceneEffect_closed:
  assumes "mountRef s = Some el" "el_rect el = (w, h)" "rendererRef s = None"
    "resizeListeners s = []"
  shows "initSceneEffect s =
    s\<lparr>sceneRef := Some (length (sceneStore s)),
      cameraStore := cameraStore s @
        [\<lparr>cam_fov = 75, cam_aspect = js_div w h, cam_near = 0.1, cam_far = 1000,
          cam_position = (3, 2, 4)\<rparr>],
      cameraRef := Some (length (cameraStore s)),
      rendererStore := rendererStore s @
        [\<lparr>r_antialias = True, r_size = Some (w, h),
          r_pixelRatio = Some (devicePixelRatio s), r_disposeCalls = 0\<rparr>],
      rendererRef := Some (length (rendererStore s)),
      mountRef := Some (el\<lparr>el_children := el_children el @ [length (rendererStore s)]\<rparr>),
      lightStore := lightStore s @
        [\<lparr>l_kind = AmbientLight, l_color = 16777215, l_intensity = 0.35, l_position = None\<rparr>,
         \<lparr>l_kind = DirectionalLight, l_color = 16777215, l_intensity = 0.9,
           l_position = Some (5, 5, 5)\<rparr>],
      geometryStore := geometryStore s @
        [\<lparr>g_ctor = BoxGeometry 1.5 1.5 1.5, g_disposeCalls = 0\<rparr>],
      materialStore := materialStore s @
        [\<lparr>mat_color = ''#44aa88'', mat_wireframe = wireframeRef s,
          mat_needsUpdate = False, mat_disposeCalls = 0\<rparr>],
      meshStore := meshStore s @
        [\<lparr>mesh_geometry = length (geometryStore s), mesh_material = length (materialStore s),
          rotation_x = (if autoRotateRef s then 0.01 else 0),
          rotation_y = (if autoRotateRef s then 0.015 else 0)\<rparr>],
      currentMeshRef := Some (length (meshStore s)),
      helperStore := helperStore s @ [AxesHelper 2, GridHelper 10 10 4473924 2236962],
      sceneStore := sceneStore s @
        [\<lparr>sc_background = Some 657930,
          sc_children = [LightRef (length (lightStore s)), LightRef (Suc (length (lightStore s))),
                         MeshRef (length (meshStore s)),
                         HelperRef (length (helperStore s)), HelperRef (Suc (length (helperStore s)))]\<rparr>],
      rafLast := Suc (rafLast s),
      rafPending := rafPending s @ [(Suc (rafLast s), init_env s)],
      animRef := Some (Suc (rafLast s)),
      resizeListeners := [init_env s],
      sceneCleanup := Some (init_env s),
      trace := trace s @
        [ConsoleLog LogInitScene, NewGeometry (length (geometryStore s)),
         RequestAnimationFrame (Suc (rafLast s)),
         Render (length (rendererStore s)) (length (sceneStore s)) (length (cameraStore s)),
         AddResizeListener (init_env s)]\<rparr>"
  using assms
  unfolding initSceneEffect_def
  apply (simp only: option.case)
  apply ((rule let_run_pair | rule let_run),
         (simp add: animate_closed host_defs three_defs nth_second_appended
            update_second_appended; fail))+
  apply (simp add: init_env_def)
  done

lemma initial_render_closed:
  "initial_render store dpr =
     \<lparr>wireframe = (store ''wireframe'' = Some ''true''),
      autoRotate = (store ''autoRotate'' \<noteq> Some ''false''),
      mountRef = None, sceneRef = None, cameraRef = None, rendererRef = None,
      currentMeshRef = None, animRef = None,
      wireframeRef = (store ''wireframe'' = Some ''true''),
      autoRotateRef = (store ''autoRotate'' \<noteq> Some ''false''),
      sceneCleanup = None,
      geometryStore = [], materialStore = [], meshStore = [], lightStore = [],
      helperStore = [], sceneStore = [], cameraStore = [], rendererStore = [],
      localStorage = store, devicePixelRatio = dpr,
      resizeListeners = [], rafLast = 0, rafPending = [], trace = []\<rparr>"
  by (simp add: initial_render_def Let_def getItem_def)

lemma syncWireframeEffect_closed:
  "syncWireframeEffect s =
     s\<lparr>wireframeRef := wireframe s,
       localStorage := (localStorage s)(''wireframe'' \<mapsto> String_of_bool (wireframe s)),
       trace := trace s @ [StorageSetItem ''wireframe'' (String_of_bool (wireframe s)),
                           ConsoleLog (LogWireframeUpdated (wireframe s))]\<rparr>"
  by (simp add: syncWireframeEffect_def setItem_def console_log_def emit_def)

lemma syncAutoRotateEffect_closed:
  "syncAutoRotateEffect s =
     s\<lparr>autoRotateRef := autoRotate s,
       localStorage := (localStorage s)(''autoRotate'' \<mapsto> String_of_bool (autoRotate s)),
       trace := trace s @ [StorageSetItem ''autoRotate'' (String_of_bool (autoRotate s)),
                           ConsoleLog (LogAutoRotateUpdated (autoRotate s))]\<rparr>"
  by (simp add: syncAutoRotateEffect_def setItem_def console_log_def emit_def)

lemma applyWireframeEffect_closed:
  "applyWireframeEffect s =
     (case currentMeshRef s of
        None \<Rightarrow> s
      | Some me \<Rightarrow>
          s\<lparr>materialStore :=
               ((materialStore s)
                  [mesh_material (meshStore s ! me) :=
                     (materialStore s ! mesh_material (meshStore s ! me))\<lparr>mat_wireframe := wireframe s\<rparr>])
                  [mesh_material (meshStore s ! me) :=
                     (((materialStore s)
                        [mesh_material (meshStore s ! me) :=
                           (materialStore s ! mesh_material (meshStore s ! me))\<lparr>mat_wireframe := wireframe s\<rparr>])
                       ! mesh_material (meshStore s ! me))\<lparr>mat_needsUpdate := True\<rparr>],
             trace := trace s @ [ConsoleLog (LogWireframeApplied (wireframe s))]\<rparr>)"
  by (simp add: applyWireframeEffect_def set_material_wireframe_def set_material_needsUpdate_def
      console_log_def emit_def Let_def split: option.splits)

lemma mount_closed:
  "mount store dpr (w, h) =
     \<lparr>wireframe = (store ''wireframe'' = Some ''true''),
      autoRotate = (store ''autoRotate'' \<noteq> Some ''false''),
      mountRef = Some \<lparr>el_rect = (w, h), el_children = [0]\<rparr>,
      sceneRef = Some 0, cameraRef = Some 0, rendererRef = Some 0,
      currentMeshRef = Some 0, animRef = Some 1,
      wireframeRef = (store ''wireframe'' = Some ''true''),
      autoRotateRef = (store ''autoRotate'' \<noteq> Some ''false''),
      sceneCleanup = Some env0,
      geometryStore = [\<lparr>g_ctor = BoxGeometry 1.5 1.5 1.5, g_disposeCalls = 0\<rparr>],
      materialStore =
        [\<lparr>mat_color = ''#44aa88'', mat_wireframe = (store ''wireframe'' = Some ''true''),
          mat_needsUpdate = True, mat_disposeCalls = 0\<rparr>],
      meshStore =
        [\<lparr>mesh_geometry = 0, mesh_material = 0,
          rotation_x = (if store ''autoRotate'' \<noteq> Some ''false'' then 0.01 else 0),
          rotation_y = (if store ''autoRotate'' \<noteq> Some ''false'' then 0.015 else 0)\<rparr>],
      lightStore =
        [\<lparr>l_kind = AmbientLight, l_color = 16777215, l_intensity = 0.35, l_position = None\<rparr>,
         \<lparr>l_kind = DirectionalLight, l_color = 16777215, l_intensity = 0.9,
           l_position = Some (5, 5, 5)\<rparr>],
      helperStore = [AxesHelper 2, GridHelper 10 10 4473924 2236962],
      sceneStore =
        [\<lparr>sc_background = Some 657930,
          sc_children = [LightRef 0, LightRef 1, MeshRef 0, HelperRef 0, HelperRef 1]\<rparr>],
      cameraStore =
        [\<lparr>cam_fov = 75, cam_aspect = js_div w h, cam_near = 0.1, cam_far = 1000,
          cam_position = (3, 2, 4)\<rparr>],
      rendererStore =
        [\<lparr>r_antialias = True, r_size = Some (w, h), r_pixelRatio = Some dpr,
          r_disposeCalls = 0\<rparr>],
      localStorage =
        store(''wireframe'' \<mapsto> String_of_bool (store ''wireframe'' = Some ''true''),
              ''autoRotate'' \<mapsto> String_of_bool (store ''autoRotate'' \<noteq> Some ''false'')),
      devicePixelRatio = dpr,
      resizeListeners = [env0],
      rafLast = 1,
      rafPending = [(1, env0)],
      trace =
        [StorageSetItem ''wireframe'' (String_of_bool (store ''wireframe'' = Some ''true'')),
         ConsoleLog (LogWireframeUpdated (store ''wireframe'' = Some ''true'')),
         StorageSetItem ''autoRotate'' (String_of_bool (store ''autoRotate'' \<noteq> Some ''false'')),
         ConsoleLog (LogAutoRotateUpdated (store ''autoRotate'' \<noteq> Some ''false'')),
         ConsoleLog LogInitScene, NewGeometry 0, RequestAnimationFrame 1, Render 0 0 0,
         AddResizeListener env0,
         ConsoleLog (LogWireframeApplied (store ''wireframe'' = Some ''true''))]\<rparr>"
  unfolding mount_def
  apply ((rule let_run_pair | rule let_run),
         (simp add: initial_render_closed syncWireframeEffect_closed syncAutoRotateEffect_closed
            initSceneEffect_closed[where w=w and h=h and el="\<lparr>el_rect = (w, h), el_children = []\<rparr>"]
            init_env_def; fail))+
  apply (simp add: applyWireframeEffect_closed env0_def)
  done

lemma example_mounted_closed:
  "example_mounted =
     \<lparr>wireframe = False, autoRotate = True,
      mountRef = Some \<lparr>el_rect = (800, 600), el_children = [0]\<rparr>,
      sceneRef = Some 0, cameraRef = Some 0, rendererRef = Some 0,
      currentMeshRef = Some 0, animRef = Some 1,
      wireframeRef = False, autoRotateRef = True,
      sceneCleanup = Some env0,
      geometryStore = [\<lparr>g_ctor = BoxGeometry 1.5 1.5 1.5, g_disposeCalls = 0\<rparr>],
      materialStore =
        [\<lparr>mat_color = ''#44aa88'', mat_wireframe = False,
          mat_needsUpdate = True, mat_disposeCalls = 0\<rparr>],
      meshStore = [\<lparr>mesh_geometry = 0, mesh_material = 0, rotation_x = 0.01, rotation_y = 0.015\<rparr>],
      lightStore =
        [\<lparr>l_kind = AmbientLight, l_color = 16777215, l_intensity = 0.35, l_position = None\<rparr>,
         \<lparr>l_kind = DirectionalLight, l_color = 16777215, l_intensity = 0.9,
           l_position = Some (5, 5, 5)\<rparr>],
      helperStore = [AxesHelper 2, GridHelper 10 10 4473924 2236962],
      sceneStore =
        [\<lparr>sc_background = Some 657930,
          sc_children = [LightRef 0, LightRef 1, MeshRef 0, HelperRef 0, HelperRef 1]\<rparr>],
      cameraStore =
        [\<lparr>cam_fov = 75, cam_aspect = js_div 800 600, cam_near = 0.1, cam_far = 1000,
          cam_position = (3, 2, 4)\<rparr>],
      rendererStore =
        [\<lparr>r_antialias = True, r_size = Some (800, 600), r_pixelRatio = Some 1,
          r_disposeCalls = 0\<rparr>],
      localStorage = [''wireframe'' \<mapsto> ''false'', ''autoRotate'' \<mapsto> ''true''],
      devicePixelRatio = 1,
      resizeListeners = [env0],
      rafLast = 1,
      rafPending = [(1, env0)],
      trace =
        [StorageSetItem ''wireframe'' ''false'', ConsoleLog (LogWireframeUpdated False),
         StorageSetItem ''autoRotate'' ''true'', ConsoleLog (LogAutoRotateUpdated True),
         ConsoleLog LogInitScene, NewGeometry 0, RequestAnimationFrame 1, Render 0 0 0,
         AddResizeListener env0, ConsoleLog (LogWireframeApplied False)]\<rparr>"
  by (simp add: example_mounted_def mount_closed String_of_bool_def)


section \<open>The claims\<close>

text \<open>
  C7.  At startup, a preference key without a stored value reads as its default:
  wireframe false, autoRotate true.  With a stored string \<open>v\<close>, wireframe is true exactly
  when \<open>v\<close> is "true", and autoRotate is false exactly when \<open>v\<close> is "false".
\<close>

theorem initial_preferences:
  "(store ''wireframe'' = None \<longrightarrow> \<not> wireframe (initial_render store dpr)) \<and>
   (store ''autoRotate'' = None \<longrightarrow> autoRotate (initial_render store dpr)) \<and>
   (store ''wireframe'' = Some v \<longrightarrow> (wireframe (initial_render store dpr) \<longleftrightarrow> v = ''true'')) \<and>
   (store ''autoRotate'' = Some v \<longrightarrow> (\<not> autoRotate (initial_render store dpr) \<longleftrightarrow> v = ''false''))"
  by (simp add: initial_render_closed)

text \<open>C7 at the empty store, and at a store holding "true" and "false".\<close>

theorem initial_preferences_witness:
  "(Map.empty :: string \<rightharpoonup> string) ''wireframe'' = None \<and>
   (Map.empty :: string \<rightharpoonup> string) ''autoRotate'' = None \<and>
   \<not> wireframe (initial_render Map.empty 1) \<and> autoRotate (initial_render Map.empty 1) \<and>
   [''wireframe'' \<mapsto> ''true'', ''autoRotate'' \<mapsto> ''false''] ''wireframe'' = Some ''true'' \<and>
   [''wireframe'' \<mapsto> ''true'', ''autoRotate'' \<mapsto> ''false''] ''autoRotate'' = Some ''false'' \<and>
   wireframe (initial_render [''wireframe'' \<mapsto> ''true'', ''autoRotate'' \<mapsto> ''false''] 1) \<and>
   \<not> autoRotate (initial_render [''wireframe'' \<mapsto> ''true'', ''autoRotate'' \<mapsto> ''false''] 1)"
  using initial_preferences [where store = Map.empty and dpr = 1 and v = "''true''"]
    initial_preferences [where store = "[''wireframe'' \<mapsto> ''true'', ''autoRotate'' \<mapsto> ''false'']"
      and v = "''true''" and dpr = 1]
    initial_preferences [where store = "[''wireframe'' \<mapsto> ''true'', ''autoRotate'' \<mapsto> ''false'']"
      and v = "''false''" and dpr = 1]
  by simp

text \<open>
  C1.  For a catalog factory and a state with an active mesh whose shape exists:
  after \<open>replaceGeometry\<close> the mesh is still the current one, no mesh was added, and
  the one shape the mesh references is the shape the factory just allocated, not yet
  disposed; \<^verbatim>\<open>dispose\<close> was called on the previously attached shape exactly once.
  Without a mesh the operation returns the state as it was, for any factory.
\<close>

theorem replaceGeometry_swaps_shape:
  "((k, entry) \<in> set geometries \<and> currentMeshRef s = Some me \<and> me < length (meshStore s) \<and>
    mesh_geometry (meshStore s ! me) < length (geometryStore s) \<longrightarrow>
      currentMeshRef (replaceGeometry (create entry) s) = Some me \<and>
      length (meshStore (replaceGeometry (create entry) s)) = length (meshStore s) \<and>
      mesh_geometry (meshStore (replaceGeometry (create entry) s) ! me) = length (geometryStore s) \<and>
      length (geometryStore (replaceGeometry (create entry) s)) = Suc (length (geometryStore s)) \<and>
      g_disposeCalls (geometryStore (replaceGeometry (create entry) s) ! length (geometryStore s)) = 0 \<and>
      count_list (emitted s (replaceGeometry (create entry) s))
        (GeometryDispose (mesh_geometry (meshStore s ! me))) = 1 \<and>
      g_disposeCalls (geometryStore (replaceGeometry (create entry) s) ! mesh_geometry (meshStore s ! me)) =
        Suc (g_disposeCalls (geometryStore s ! mesh_geometry (meshStore s ! me)))) \<and>
   (currentMeshRef s = None \<longrightarrow> replaceGeometry f s = s)"
proof (intro conjI impI)
  assume "currentMeshRef s = None"
  then show "replaceGeometry f s = s" by (simp add: replaceGeometry_def)
next
  assume a: "(k, entry) \<in> set geometries \<and> currentMeshRef s = Some me \<and> me < length (meshStore s) \<and>
      mesh_geometry (meshStore s ! me) < length (geometryStore s)"
  then obtain c where c: "create entry = new_geometry c" using catalog_create by blast
  from a have r: "replaceGeometry (create entry) s = 
     s\<lparr>geometryStore := (geometryStore s @ [\<lparr>g_ctor = c, g_disposeCalls = 0\<rparr>])
          [mesh_geometry (meshStore s ! me) :=
             ((geometryStore s @ [\<lparr>g_ctor = c, g_disposeCalls = 0\<rparr>]) ! mesh_geometry (meshStore s ! me))
               \<lparr>g_disposeCalls :=
                  Suc (g_disposeCalls ((geometryStore s @ [\<lparr>g_ctor = c, g_disposeCalls = 0\<rparr>])
                        ! mesh_geometry (meshStore s ! me)))\<rparr>],
        meshStore := (meshStore s)[me := (meshStore s ! me)\<lparr>mesh_geometry := length (geometryStore s)\<rparr>],
        trace := trace s @ [NewGeometry (length (geometryStore s)),
                            SetMeshGeometry me (length (geometryStore s)),
                            GeometryDispose (mesh_geometry (meshStore s ! me)),
                            ConsoleLog LogGeometryReplaced]\<rparr>"
    by (simp add: c replaceGeometry_closed)
  from a show "currentMeshRef (replaceGeometry (create entry) s) = Some me"
    by (simp add: r)
  from a show "length (meshStore (replaceGeometry (create entry) s)) = length (meshStore s)"
    by (simp add: r)
  from a show "mesh_geometry (meshStore (replaceGeometry (create entry) s) ! me) = length (geometryStore s)"
    by (simp add: r)
  from a show "length (geometryStore (replaceGeometry (create entry) s)) = Suc (length (geometryStore s))"
    by (simp add: r)
  from a show "g_disposeCalls (geometryStore (replaceGeometry (create entry) s) ! length (geometryStore s)) = 0"
    by (simp add: r)
  from a show "count_list (emitted s (replaceGeometry (create entry) s))
        (GeometryDispose (mesh_geometry (meshStore s ! me))) = 1"
    by (simp add: r emitted_def)
  from a show "g_disposeCalls (geometryStore (replaceGeometry (create entry) s) ! mesh_geometry (meshStore s ! me)) =
        Suc (g_disposeCalls (geometryStore s ! mesh_geometry (meshStore s ! me)))"
    by (simp add: r nth_append)
qed

text \<open>C1 after mounting (a mesh exists) and before mounting (none exists).\<close>

theorem replaceGeometry_swaps_shape_witness:
  "(Esfera, \<lparr>label = ''Esfera'', create = new_geometry (SphereGeometry 1 32 16)\<rparr>) \<in> set geometries \<and>
   currentMeshRef example_mounted = Some 0 \<and> 0 < length (meshStore example_mounted) \<and>
   mesh_geometry (meshStore example_mounted ! 0) < length (geometryStore example_mounted) \<and>
   mesh_geometry (meshStore (replaceGeometry (new_geometry (SphereGeometry 1 32 16)) example_mounted) ! 0) = 1 \<and>
   g_disposeCalls (geometryStore (replaceGeometry (new_geometry (SphereGeometry 1 32 16)) example_mounted) ! 0) = 1 \<and>
   currentMeshRef example_initial = None \<and>
   replaceGeometry (new_geometry (SphereGeometry 1 32 16)) example_initial = example_initial"
  using replaceGeometry_swaps_shape [of Esfera "\<lparr>label = ''Esfera'', create = new_geometry (SphereGeometry 1 32 16)\<rparr>"
      example_mounted 0 "new_geometry (SphereGeometry 1 32 16)"]
    replaceGeometry_swaps_shape [of Esfera "\<lparr>label = ''Esfera'', create = new_geometry (SphereGeometry 1 32 16)\<rparr>"
      example_initial 0 "new_geometry (SphereGeometry 1 32 16)"]
  by (simp add: example_mounted_closed example_initial_def initial_render_closed geometries_def)

text \<open>
  What \<open>replaceGeometry\<close> leaves alone, for any constructor and any state, also one whose
  mesh reference is stale.
\<close>

lemma replaceGeometry_keeps:
  "replaceGeometry (new_geometry c) s = s' \<Longrightarrow>
     cameraStore s' = cameraStore s \<and> cameraRef s' = cameraRef s \<and>
     lightStore s' = lightStore s \<and> helperStore s' = helperStore s \<and>
     sceneStore s' = sceneStore s \<and> sceneRef s' = sceneRef s \<and>
     rendererStore s' = rendererStore s \<and> rendererRef s' = rendererRef s \<and>
     materialStore s' = materialStore s \<and> currentMeshRef s' = currentMeshRef s \<and>
     length (meshStore s') = length (meshStore s) \<and>
     map mesh_material (meshStore s') = map mesh_material (meshStore s) \<and>
     map rotation_x (meshStore s') = map rotation_x (meshStore s) \<and>
     map rotation_y (meshStore s') = map rotation_y (meshStore s)"
proof (cases "currentMeshRef s")
  case None
  assume "replaceGeometry (new_geometry c) s = s'"
  with None show ?thesis by (auto simp: replaceGeometry_def)
next
  case (Some me)
  assume "replaceGeometry (new_geometry c) s = s'"
  then have s': "s' = replaceGeometry (new_geometry c) s" by simp
  show ?thesis
  proof (cases "me < length (meshStore s)")
    case True
    then show ?thesis
      by (simp add: s' replaceGeometry_closed [OF Some] map_update list_update_same_conv)
  next
    case False
    then have "(meshStore s)[me := (meshStore s ! me)\<lparr>mesh_geometry := length (geometryStore s)\<rparr>] =
        meshStore s"
      by (simp add: list_update_beyond)
    then show ?thesis
      by (simp add: s' replaceGeometry_closed [OF Some])
  qed
qed

text \<open>
  C9.  Replacing the geometry through a catalog factory leaves the camera, the lights,
  the helpers (axes and grid), the scene with its list of children, the renderer and
  the material as they were; the current mesh stays the current mesh, and every mesh
  keeps its material and its rotation.  What changes is the shape the mesh references
  (and the store of shapes, where the new shape appears and the old one is disposed).
\<close>

theorem replaceGeometry_frame:
  "(k, entry) \<in> set geometries \<longrightarrow>
     cameraStore (replaceGeometry (create entry) s) = cameraStore s \<and>
     cameraRef (replaceGeometry (create entry) s) = cameraRef s \<and>
     lightStore (replaceGeometry (create entry) s) = lightStore s \<and>
     helperStore (replaceGeometry (create entry) s) = helperStore s \<and>
     sceneStore (replaceGeometry (create entry) s) = sceneStore s \<and>
     sceneRef (replaceGeometry (create entry) s) = sceneRef s \<and>
     rendererStore (replaceGeometry (create entry) s) = rendererStore s \<and>
     materialStore (replaceGeometry (create entry) s) = materialStore s \<and>
     currentMeshRef (replaceGeometry (create entry) s) = currentMeshRef s \<and>
     length (meshStore (replaceGeometry (create entry) s)) = length (meshStore s) \<and>
     map mesh_material (meshStore (replaceGeometry (create entry) s)) = map mesh_material (meshStore s) \<and>
     map rotation_x (meshStore (replaceGeometry (create entry) s)) = map rotation_x (meshStore s) \<and>
     map rotation_y (meshStore (replaceGeometry (create entry) s)) = map rotation_y (meshStore s)"
proof
  assume "(k, entry) \<in> set geometries"
  then obtain c where c: "create entry = new_geometry c" using catalog_create by blast
  show "cameraStore (replaceGeometry (create entry) s) = cameraStore s \<and>
     cameraRef (replaceGeometry (create entry) s) = cameraRef s \<and>
     lightStore (replaceGeometry (create entry) s) = lightStore s \<and>
     helperStore (replaceGeometry (create entry) s) = helperStore s \<and>
     sceneStore (replaceGeometry (create entry) s) = sceneStore s \<and>
     sceneRef (replaceGeometry (create entry) s) = sceneRef s \<and>
     rendererStore (replaceGeometry (create entry) s) = rendererStore s \<and>
     materialStore (replaceGeometry (create entry) s) = materialStore s \<and>
     currentMeshRef (replaceGeometry (create entry) s) = currentMeshRef s \<and>
     length (meshStore (replaceGeometry (create entry) s)) = length (meshStore s) \<and>
     map mesh_material (meshStore (replaceGeometry (create entry) s)) = map mesh_material (meshStore s) \<and>
     map rotation_x (meshStore (replaceGeometry (create entry) s)) = map rotation_x (meshStore s) \<and>
     map rotation_y (meshStore (replaceGeometry (create entry) s)) = map rotation_y (meshStore s)"
    unfolding c using replaceGeometry_keeps [OF refl, of c s] by simp
qed

text \<open>C9 for the sphere button after mounting.\<close>

theorem replaceGeometry_frame_witness:
  "(Esfera, \<lparr>label = ''Esfera'', create = new_geometry (SphereGeometry 1 32 16)\<rparr>) \<in> set geometries \<and>
   cameraStore (replaceGeometry (new_geometry (SphereGeometry 1 32 16)) example_mounted) =
     [\<lparr>cam_fov = 75, cam_aspect = js_div 800 600, cam_near = 0.1, cam_far = 1000,
       cam_position = (3, 2, 4)\<rparr>] \<and>
   lightStore (replaceGeometry (new_geometry (SphereGeometry 1 32 16)) example_mounted) =
     [\<lparr>l_kind = AmbientLight, l_color = 16777215, l_intensity = 0.35, l_position = None\<rparr>,
      \<lparr>l_kind = DirectionalLight, l_color = 16777215, l_intensity = 0.9,
        l_position = Some (5, 5, 5)\<rparr>] \<and>
   helperStore (replaceGeometry (new_geometry (SphereGeometry 1 32 16)) example_mounted) =
     [AxesHelper 2, GridHelper 10 10 4473924 2236962] \<and>
   sceneStore (replaceGeometry (new_geometry (SphereGeometry 1 32 16)) example_mounted) =
     [\<lparr>sc_background = Some 657930,
       sc_children = [LightRef 0, LightRef 1, MeshRef 0, HelperRef 0, HelperRef 1]\<rparr>]"
  using replaceGeometry_frame [where k = Esfera
      and entry = "\<lparr>label = ''Esfera'', create = new_geometry (SphereGeometry 1 32 16)\<rparr>"
      and s = example_mounted]
  by (simp add: example_mounted_closed geometries_def)

text \<open>
  C4.  Each catalog factory allocates a shape with the constructor arguments listed
  (sphere 1, 32, 16; plane 2, 2; cone 1, 2, 16; cylinder 1, 1, 2, 16; torus 1, 0.3, 16, 64;
  torus knot 1, 0.3, 100, 16; circle 1, 32; ring 0.5, 1, 32).  A factory takes no argument,
  and the shape it returns is new: it is not one of the shapes that existed, which stay
  as they were.  Two calls of a factory return two different shapes, neither disposed,
  and disposing either leaves the other as it was.
\<close>

theorem catalog_factories:
  "map (\<lambda>(k, entry). (k, g_ctor (geometryStore (snd (create entry s)) ! fst (create entry s))))
     geometries =
     [(Esfera, SphereGeometry 1 32 16), (Plano, PlaneGeometry 2 2), (Cono, ConeGeometry 1 2 16),
      (Cilindro, CylinderGeometry 1 1 2 16), (Toro, TorusGeometry 1 0.3 16 64),
      (Nudo, TorusKnotGeometry 1 0.3 100 16), (Circulo, CircleGeometry 1 32),
      (Anillo, RingGeometry 0.5 1 32)] \<and>
   ((k, entry) \<in> set geometries \<longrightarrow>
      fst (create entry s) = length (geometryStore s) \<and>
      fst (create entry (snd (create entry s))) = Suc (length (geometryStore s)) \<and>
      fst (create entry s) \<noteq> fst (create entry (snd (create entry s))) \<and>
      take (length (geometryStore s)) (geometryStore (snd (create entry (snd (create entry s))))) =
        geometryStore s \<and>
      g_disposeCalls (geometryStore (snd (create entry (snd (create entry s)))) ! fst (create entry s)) = 0 \<and>
      g_disposeCalls (geometryStore (snd (create entry (snd (create entry s))))
        ! fst (create entry (snd (create entry s)))) = 0 \<and>
      geometryStore (geometry_dispose (fst (create entry s)) (snd (create entry (snd (create entry s)))))
        ! fst (create entry (snd (create entry s))) =
      geometryStore (snd (create entry (snd (create entry s)))) ! fst (create entry (snd (create entry s))) \<and>
      geometryStore (geometry_dispose (fst (create entry (snd (create entry s))))
          (snd (create entry (snd (create entry s))))) ! fst (create entry s) =
      geometryStore (snd (create entry (snd (create entry s)))) ! fst (create entry s))"
proof (intro conjI impI)
  show "map (\<lambda>(k, entry). (k, g_ctor (geometryStore (snd (create entry s)) ! fst (create entry s))))
     geometries =
     [(Esfera, SphereGeometry 1 32 16), (Plano, PlaneGeometry 2 2), (Cono, ConeGeometry 1 2 16),
      (Cilindro, CylinderGeometry 1 1 2 16), (Toro, TorusGeometry 1 0.3 16 64),
      (Nudo, TorusKnotGeometry 1 0.3 100 16), (Circulo, CircleGeometry 1 32),
      (Anillo, RingGeometry 0.5 1 32)]"
    by (simp add: geometries_def new_geometry_def emit_def)
next
  assume "(k, entry) \<in> set geometries"
  then obtain c where c: "create entry = new_geometry c" using catalog_create by blast
  show "fst (create entry s) = length (geometryStore s)"
    by (simp add: c new_geometry_def)
  show "fst (create entry (snd (create entry s))) = Suc (length (geometryStore s))"
    by (simp add: c new_geometry_def emit_def)
  show "fst (create entry s) \<noteq> fst (create entry (snd (create entry s)))"
    by (simp add: c new_geometry_def emit_def)
  show "take (length (geometryStore s)) (geometryStore (snd (create entry (snd (create entry s))))) =
        geometryStore s"
    by (simp add: c new_geometry_def emit_def)
  show "g_disposeCalls (geometryStore (snd (create entry (snd (create entry s)))) ! fst (create entry s)) = 0"
    by (simp add: c new_geometry_def emit_def nth_append)
  show "g_disposeCalls (geometryStore (snd (create entry (snd (create entry s))))
        ! fst (create entry (snd (create entry s)))) = 0"
    by (simp add: c new_geometry_def emit_def nth_append)
  show "geometryStore (geometry_dispose (fst (create entry s)) (snd (create entry (snd (create entry s)))))
        ! fst (create entry (snd (create entry s))) =
      geometryStore (snd (create entry (snd (create entry s)))) ! fst (create entry (snd (create entry s)))"
    by (simp add: c new_geometry_def geometry_dispose_def emit_def nth_append)
  show "geometryStore (geometry_dispose (fst (create entry (snd (create entry s))))
          (snd (create entry (snd (create entry s))))) ! fst (create entry s) =
      geometryStore (snd (create entry (snd (create entry s)))) ! fst (create entry s)"
    by (simp add: c new_geometry_def geometry_dispose_def emit_def nth_append)
qed

text \<open>C4 for the torus factory, called twice after mounting.\<close>

theorem catalog_factories_witness:
  "(Toro, \<lparr>label = ''Toro'', create = new_geometry (TorusGeometry 1 0.3 16 64)\<rparr>) \<in> set geometries \<and>
   fst (new_geometry (TorusGeometry 1 0.3 16 64) example_mounted) = 1 \<and>
   fst (new_geometry (TorusGeometry 1 0.3 16 64)
         (snd (new_geometry (TorusGeometry 1 0.3 16 64) example_mounted))) = 2"
  using catalog_factories [where k = Toro
      and entry = "\<lparr>label = ''Toro'', create = new_geometry (TorusGeometry 1 0.3 16 64)\<rparr>"
      and s = example_mounted]
  by (simp add: example_mounted_closed geometries_def)

text \<open>The example states after mounting and after the sphere button, field by field.\<close>

lemma example_mounted_facts:
  "currentMeshRef example_mounted = Some 0"
  "length (meshStore example_mounted) = 1"
  "length (geometryStore example_mounted) = 1"
  "length (materialStore example_mounted) = 1"
  "mesh_geometry (meshStore example_mounted ! 0) = 0"
  "mesh_material (meshStore example_mounted ! 0) = 0"
  "g_disposeCalls (geometryStore example_mounted ! 0) = 0"
  "rotation_x (meshStore example_mounted ! 0) = 0.01"
  "rotation_y (meshStore example_mounted ! 0) = 0.015"
  "rafPending example_mounted = [(1, env0)]"
  "autoRotateRef example_mounted"
  "autoRotate example_mounted"
  "\<not> wireframe example_mounted"
  "\<not> wireframeRef example_mounted"
  "\<not> mat_wireframe (materialStore example_mounted ! 0)"
  by (simp_all add: example_mounted_closed)

lemma example_replaced_closed:
  "example_replaced = 
     example_mounted
       \<lparr>geometryStore := [\<lparr>g_ctor = BoxGeometry 1.5 1.5 1.5, g_disposeCalls = 1\<rparr>,
                          \<lparr>g_ctor = SphereGeometry 1 32 16, g_disposeCalls = 0\<rparr>],
        meshStore := [\<lparr>mesh_geometry = 1, mesh_material = 0, rotation_x = 0.01, rotation_y = 0.015\<rparr>],
        trace := trace example_mounted @
          [NewGeometry 1, SetMeshGeometry 0 1, GeometryDispose 0, ConsoleLog LogGeometryReplaced]\<rparr>"
proof -
  have m: "currentMeshRef example_mounted = Some 0"
    by (simp add: example_mounted_closed)
  have e: "map_of geometries Esfera =
      Some \<lparr>label = ''Esfera'', create = new_geometry (SphereGeometry 1 32 16)\<rparr>"
    by (simp add: geometries_def)
  show ?thesis
    unfolding example_replaced_def clickGeometry_def e option.case catalog_entry.simps
      replaceGeometry_closed [OF m]
    by (simp add: example_mounted_closed)
qed

text \<open>
  C3, as the code has it.  For a catalog factory and an active mesh whose attached shape
  is not disposed, \<open>replaceGeometry\<close> makes its calls in this order: the factory, which
  allocates the new shape; the assignment of the new shape to the mesh; \<^verbatim>\<open>dispose\<close> on
  the shape that was attached before; the log line.  After each of these steps the mesh
  references exactly one shape and that shape is not disposed: the old one until the
  assignment, the new one from then on.  Between the factory call and the dispose call
  the old and the new shape both exist undisposed; after the operation the old one is
  disposed.
\<close>

theorem replaceGeometry_order:
  "(k, entry) \<in> set geometries \<and> currentMeshRef s = Some me \<and> attached_live me s \<longrightarrow>
     fst (create entry s) = length (geometryStore s) \<and>
     replaceGeometry (create entry) s =
       console_log LogGeometryReplaced
         (geometry_dispose (mesh_geometry (meshStore s ! me))
            (set_mesh_geometry me (length (geometryStore s)) (snd (create entry s)))) \<and>
     emitted s (replaceGeometry (create entry) s) =
       [NewGeometry (length (geometryStore s)),
        SetMeshGeometry me (length (geometryStore s)),
        GeometryDispose (mesh_geometry (meshStore s ! me)),
        ConsoleLog LogGeometryReplaced] \<and>
     attached_live me (snd (create entry s)) \<and>
     mesh_geometry (meshStore (snd (create entry s)) ! me) = mesh_geometry (meshStore s ! me) \<and>
     attached_live me (set_mesh_geometry me (length (geometryStore s)) (snd (create entry s))) \<and>
     mesh_geometry (meshStore (set_mesh_geometry me (length (geometryStore s)) (snd (create entry s))) ! me) =
       length (geometryStore s) \<and>
     mesh_geometry (meshStore s ! me) \<in>
       set (undisposed (set_mesh_geometry me (length (geometryStore s)) (snd (create entry s)))) \<and>
     length (geometryStore s) \<in>
       set (undisposed (set_mesh_geometry me (length (geometryStore s)) (snd (create entry s)))) \<and>
     attached_live me (replaceGeometry (create entry) s) \<and>
     mesh_geometry (meshStore (replaceGeometry (create entry) s) ! me) = length (geometryStore s) \<and>
     mesh_geometry (meshStore s ! me) \<notin> set (undisposed (replaceGeometry (create entry) s))"
proof
  assume a: "(k, entry) \<in> set geometries \<and> currentMeshRef s = Some me \<and> attached_live me s"
  then obtain c where c: "create entry = new_geometry c" using catalog_create by blast
  from a have m: "currentMeshRef s = Some me" by simp
  from a have b: "me < length (meshStore s)"
    "mesh_geometry (meshStore s ! me) < length (geometryStore s)"
    "g_disposeCalls (geometryStore s ! mesh_geometry (meshStore s ! me)) = 0"
    by (simp_all add: attached_live_def)
  have 1: "fst (create entry s) = length (geometryStore s)"
    by (simp add: c new_geometry_def)
  have 2: "replaceGeometry (create entry) s =
       console_log LogGeometryReplaced
         (geometry_dispose (mesh_geometry (meshStore s ! me))
            (set_mesh_geometry me (length (geometryStore s)) (snd (create entry s))))"
    using m by (simp add: c replaceGeometry_def new_geometry_def)
  have 3: "emitted s (replaceGeometry (create entry) s) =
       [NewGeometry (length (geometryStore s)),
        SetMeshGeometry me (length (geometryStore s)),
        GeometryDispose (mesh_geometry (meshStore s ! me)),
        ConsoleLog LogGeometryReplaced]"
    by (simp add: c replaceGeometry_closed [OF m] emitted_def)
  have 4: "attached_live me (snd (create entry s)) \<and>
     mesh_geometry (meshStore (snd (create entry s)) ! me) = mesh_geometry (meshStore s ! me)"
    using b by (simp add: c new_geometry_def emit_def attached_live_def nth_append)
  have 5: "attached_live me (set_mesh_geometry me (length (geometryStore s)) (snd (create entry s))) \<and>
     mesh_geometry (meshStore (set_mesh_geometry me (length (geometryStore s)) (snd (create entry s))) ! me) =
       length (geometryStore s)"
    using b by (simp add: c new_geometry_def set_mesh_geometry_def emit_def attached_live_def)
  have 6: "mesh_geometry (meshStore s ! me) \<in>
       set (undisposed (set_mesh_geometry me (length (geometryStore s)) (snd (create entry s)))) \<and>
     length (geometryStore s) \<in>
       set (undisposed (set_mesh_geometry me (length (geometryStore s)) (snd (create entry s))))"
    using b by (simp add: c new_geometry_def set_mesh_geometry_def emit_def undisposed_def nth_append)
  have 7: "attached_live me (replaceGeometry (create entry) s) \<and>
     mesh_geometry (meshStore (replaceGeometry (create entry) s) ! me) = length (geometryStore s)"
    using b by (simp add: c replaceGeometry_closed [OF m] attached_live_def)
  have 8: "mesh_geometry (meshStore s ! me) \<notin> set (undisposed (replaceGeometry (create entry) s))"
    using b by (simp add: c replaceGeometry_closed [OF m] undisposed_def nth_append)
  from 1 2 3 4 5 6 7 8
  show "fst (create entry s) = length (geometryStore s) \<and>
     replaceGeometry (create entry) s =
       console_log LogGeometryReplaced
         (geometry_dispose (mesh_geometry (meshStore s ! me))
            (set_mesh_geometry me (length (geometryStore s)) (snd (create entry s)))) \<and>
     emitted s (replaceGeometry (create entry) s) =
       [NewGeometry (length (geometryStore s)),
        SetMeshGeometry me (length (geometryStore s)),
        GeometryDispose (mesh_geometry (meshStore s ! me)),
        ConsoleLog LogGeometryReplaced] \<and>
     attached_live me (snd (create entry s)) \<and>
     mesh_geometry (meshStore (snd (create entry s)) ! me) = mesh_geometry (meshStore s ! me) \<and>
     attached_live me (set_mesh_geometry me (length (geometryStore s)) (snd (create entry s))) \<and>
     mesh_geometry (meshStore (set_mesh_geometry me (length (geometryStore s)) (snd (create entry s))) ! me) =
       length (geometryStore s) \<and>
     mesh_geometry (meshStore s ! me) \<in>
       set (undisposed (set_mesh_geometry me (length (geometryStore s)) (snd (create entry s)))) \<and>
     length (geometryStore s) \<in>
       set (undisposed (set_mesh_geometry me (length (geometryStore s)) (snd (create entry s)))) \<and>
     attached_live me (replaceGeometry (create entry) s) \<and>
     mesh_geometry (meshStore (replaceGeometry (create entry) s) ! me) = length (geometryStore s) \<and>
     mesh_geometry (meshStore s ! me) \<notin> set (undisposed (replaceGeometry (create entry) s))"
    by blast
qed

text \<open>C3 for the sphere button after mounting.\<close>

theorem replaceGeometry_order_witness:
  "(Esfera, \<lparr>label = ''Esfera'', create = new_geometry (SphereGeometry 1 32 16)\<rparr>) \<in> set geometries \<and>
   currentMeshRef example_mounted = Some 0 \<and> attached_live 0 example_mounted \<and>
   emitted example_mounted (replaceGeometry (new_geometry (SphereGeometry 1 32 16)) example_mounted) =
     [NewGeometry 1, SetMeshGeometry 0 1, GeometryDispose 0, ConsoleLog LogGeometryReplaced]"
proof -
  have h: "(Esfera, \<lparr>label = ''Esfera'', create = new_geometry (SphereGeometry 1 32 16)\<rparr>) \<in> set geometries \<and>
      currentMeshRef example_mounted = Some 0 \<and> attached_live 0 example_mounted"
    by (simp add: example_mounted_facts geometries_def attached_live_def)
  have "emitted example_mounted (replaceGeometry (new_geometry (SphereGeometry 1 32 16)) example_mounted) =
     [NewGeometry (length (geometryStore example_mounted)),
      SetMeshGeometry 0 (length (geometryStore example_mounted)),
      GeometryDispose (mesh_geometry (meshStore example_mounted ! 0)),
      ConsoleLog LogGeometryReplaced]"
    using replaceGeometry_order [where k = Esfera
      and entry = "\<lparr>label = ''Esfera'', create = new_geometry (SphereGeometry 1 32 16)\<rparr>"
      and s = example_mounted and me = 0, THEN mp, OF h, THEN conjunct2, THEN conjunct2,
      THEN conjunct1]
    by (simp only: catalog_entry.simps)
  then show ?thesis using h by (simp add: example_mounted_facts)
qed

text \<open>
  C3 as stated fails: on the sphere button after mounting, \<^verbatim>\<open>dispose\<close> on the old
  shape does not come before the assignment of the new one but after it, and right
  after the assignment two undisposed shapes exist, the cube 0 and the sphere 1.
\<close>

theorem replaceGeometry_order_counterexample:
  "\<not> occurs_before (GeometryDispose 0) (SetMeshGeometry 0 1) (emitted example_mounted example_replaced) \<and>
   occurs_before (SetMeshGeometry 0 1) (GeometryDispose 0) (emitted example_mounted example_replaced) \<and>
   undisposed (set_mesh_geometry 0 1 (snd (new_geometry (SphereGeometry 1 32 16) example_mounted))) = [0, 1]"
  by (simp add: example_replaced_closed emitted_def undisposed_def new_geometry_def
      set_mesh_geometry_def emit_def example_mounted_closed)

text \<open>
  A frame with one pending request runs \<open>animate\<close> once and leaves one request pending.
  With the mirror cell false no frame touches a mesh, whatever is pending.
\<close>

lemma fireFrame_single:
  assumes "rafPending s = [(h, env)]"
  shows "fireFrame s =
     s\<lparr>rafLast := Suc (rafLast s),
       rafPending := [(Suc (rafLast s), env)],
       animRef := Some (Suc (rafLast s)),
       meshStore :=
         (case currentMeshRef s of
            None \<Rightarrow> meshStore s
          | Some me \<Rightarrow>
              if autoRotateRef s
              then ((meshStore s)[me := (meshStore s ! me)\<lparr>rotation_x := rotation_x (meshStore s ! me) + 0.01\<rparr>])
                     [me := ((meshStore s)[me := (meshStore s ! me)\<lparr>rotation_x := rotation_x (meshStore s ! me) + 0.01\<rparr>] ! me)
                        \<lparr>rotation_y := rotation_y ((meshStore s)[me := (meshStore s ! me)\<lparr>rotation_x := rotation_x (meshStore s ! me) + 0.01\<rparr>] ! me) + 0.015\<rparr>]
              else meshStore s),
       trace := trace s @ [RequestAnimationFrame (Suc (rafLast s)),
                           Render (env_renderer env) (env_scene env) (env_camera env)]\<rparr>"
  using assms by (cases "currentMeshRef s"; cases "autoRotateRef s"; simp add: fireFrame_def animate_closed)

lemma frames_paused_fold:
  "\<not> autoRotateRef s \<Longrightarrow>
     meshStore (foldl (\<lambda>s' p. animate (snd p) s') s ps) = meshStore s \<and>
     \<not> autoRotateRef (foldl (\<lambda>s' p. animate (snd p) s') s ps)"
proof (induction ps arbitrary: s)
  case Nil
  then show ?case by simp
next
  case (Cons p ps)
  have "\<not> autoRotateRef (animate (snd p) s)" "meshStore (animate (snd p) s) = meshStore s"
    using Cons.prems by (simp_all add: animate_closed split: option.splits)
  with Cons.IH [of "animate (snd p) s"] show ?case by simp
qed

lemma fireFrame_paused:
  "\<not> autoRotateRef s \<Longrightarrow> meshStore (fireFrame s) = meshStore s \<and> \<not> autoRotateRef (fireFrame s)"
  unfolding fireFrame_def
  using frames_paused_fold [of "s\<lparr>rafPending := []\<rparr>" "rafPending s"] by simp

lemma advanceFrames_paused:
  "\<not> autoRotateRef s \<Longrightarrow>
     meshStore (advanceFrames n s) = meshStore s \<and> \<not> autoRotateRef (advanceFrames n s)"
proof (induction n)
  case 0
  then show ?case by (simp add: advanceFrames_def)
next
  case (Suc n)
  then have "meshStore (advanceFrames n s) = meshStore s" "\<not> autoRotateRef (advanceFrames n s)"
    by simp_all
  moreover have "advanceFrames (Suc n) s = fireFrame (advanceFrames n s)"
    by (simp add: advanceFrames_def)
  ultimately show ?case using fireFrame_paused [of "advanceFrames n s"] by simp
qed

lemma advanceFrames_rotating:
  assumes "autoRotateRef s" "rafPending s = [(h, env)]" "currentMeshRef s = Some me"
    "me < length (meshStore s)"
  shows "autoRotateRef (advanceFrames n s) \<and>
     (\<exists>h'. rafPending (advanceFrames n s) = [(h', env)]) \<and>
     currentMeshRef (advanceFrames n s) = Some me \<and>
     length (meshStore (advanceFrames n s)) = length (meshStore s) \<and>
     rotation_x (meshStore (advanceFrames n s) ! me) = rotation_x (meshStore s ! me) + real n * 0.01 \<and>
     rotation_y (meshStore (advanceFrames n s) ! me) = rotation_y (meshStore s ! me) + real n * 0.015"
proof (induction n)
  case 0
  then show ?case using assms by (simp add: advanceFrames_def)
next
  case (Suc n)
  let ?t = "advanceFrames n s"
  from Suc obtain h' where p: "rafPending ?t = [(h', env)]" by blast
  from Suc have a: "autoRotateRef ?t" "currentMeshRef ?t = Some me"
    "length (meshStore ?t) = length (meshStore s)"
    "rotation_x (meshStore ?t ! me) = rotation_x (meshStore s ! me) + real n * 0.01"
    "rotation_y (meshStore ?t ! me) = rotation_y (meshStore s ! me) + real n * 0.015"
    by simp_all
  have e: "advanceFrames (Suc n) s = fireFrame ?t"
    by (simp add: advanceFrames_def)
  from a assms(4) show ?case
    unfolding e fireFrame_single [OF p]
    by (simp add: algebra_simps)
qed

text \<open>
  C5.  With the auto-rotate mirror cell false, advancing \<open>n\<close> frames leaves every mesh,
  so also its rotation angles, unchanged.  With the cell true, a mesh present and the
  animation loop running (one request pending, as after mounting), advancing \<open>n\<close>
  frames adds exactly \<open>n * 0.01\<close> to the x angle and \<open>n * 0.015\<close> to the y angle.
  Numbers are exact reals.
\<close>

theorem frames_rotate:
  "(\<not> autoRotateRef s \<longrightarrow> meshStore (advanceFrames n s) = meshStore s) \<and>
   (autoRotateRef s \<and> rafPending s = [(h, env)] \<and> currentMeshRef s = Some me \<and>
    me < length (meshStore s) \<longrightarrow>
      rotation_x (meshStore (advanceFrames n s) ! me) = rotation_x (meshStore s ! me) + real n * 0.01 \<and>
      rotation_y (meshStore (advanceFrames n s) ! me) = rotation_y (meshStore s ! me) + real n * 0.015)"
  using advanceFrames_paused [of s n] advanceFrames_rotating [of s h env me n] by blast

text \<open>
  C5 three frames after mounting: the angles go from 0.01 and 0.015 (the first call of
  \<open>animate\<close> is part of mounting) to 0.04 and 0.06; after the pause button they stay.
\<close>

theorem frames_rotate_witness:
  "autoRotateRef example_mounted \<and> rafPending example_mounted = [(1, env0)] \<and>
   currentMeshRef example_mounted = Some 0 \<and> 0 < length (meshStore example_mounted) \<and>
   rotation_x (meshStore (advanceFrames 3 example_mounted) ! 0) = 0.04 \<and>
   rotation_y (meshStore (advanceFrames 3 example_mounted) ! 0) = 0.06 \<and>
   \<not> autoRotateRef (clickAutoRotate example_mounted) \<and>
   meshStore (advanceFrames 3 (clickAutoRotate example_mounted)) =
     meshStore (clickAutoRotate example_mounted)"
proof -
  have h: "autoRotateRef example_mounted \<and> rafPending example_mounted = [(1, env0)] \<and>
      currentMeshRef example_mounted = Some 0 \<and> 0 < length (meshStore example_mounted)"
    by (simp add: example_mounted_facts)
  have p: "\<not> autoRotateRef (clickAutoRotate example_mounted)"
    by (simp add: clickAutoRotate_def syncAutoRotateEffect_closed example_mounted_facts)
  from frames_rotate [where s = example_mounted and n = 3 and h = 1 and env = env0 and me = 0,
      THEN conjunct2, THEN mp, OF h]
  have "rotation_x (meshStore (advanceFrames 3 example_mounted) ! 0) = 0.04 \<and>
      rotation_y (meshStore (advanceFrames 3 example_mounted) ! 0) = 0.06"
    by (simp add: example_mounted_facts)
  moreover from frames_rotate [where s = "clickAutoRotate example_mounted" and n = 3,
      THEN conjunct1, THEN mp, OF p]
  have "meshStore (advanceFrames 3 (clickAutoRotate example_mounted)) =
     meshStore (clickAutoRotate example_mounted)" .
  ultimately show ?thesis using h p by simp
qed

text \<open>A click on the wireframe button, with a mesh present, in one assignment.\<close>

lemma clickWireframe_closed:
  assumes "currentMeshRef s = Some me"
  shows "clickWireframe s =
     s\<lparr>wireframe := \<not> wireframe s,
       wireframeRef := \<not> wireframe s,
       localStorage := (localStorage s)(''wireframe'' \<mapsto> String_of_bool (\<not> wireframe s)),
       materialStore :=
         ((materialStore s)
            [mesh_material (meshStore s ! me) :=
               (materialStore s ! mesh_material (meshStore s ! me))\<lparr>mat_wireframe := \<not> wireframe s\<rparr>])
            [mesh_material (meshStore s ! me) :=
               (((materialStore s)
                  [mesh_material (meshStore s ! me) :=
                     (materialStore s ! mesh_material (meshStore s ! me))\<lparr>mat_wireframe := \<not> wireframe s\<rparr>])
                 ! mesh_material (meshStore s ! me))\<lparr>mat_needsUpdate := True\<rparr>],
       trace := trace s @
         [StorageSetItem ''wireframe'' (String_of_bool (\<not> wireframe s)),
          ConsoleLog (LogWireframeUpdated (\<not> wireframe s)),
          ConsoleLog (LogWireframeApplied (\<not> wireframe s))]\<rparr>"
  using assms
  by (simp add: clickWireframe_def syncWireframeEffect_closed applyWireframeEffect_closed)

text \<open>
  C6.  In a state with a mesh whose material exists, the wireframe control false and
  the material's flag false with it: one click makes the control and the flag true and
  stores "true" under the key "wireframe"; a second click makes the control false
  again, returns the flag of the same material to its original value, and stores
  "false".
\<close>

theorem wireframe_round_trip:
  "currentMeshRef s = Some me \<and> me < length (meshStore s) \<and>
   mesh_material (meshStore s ! me) < length (materialStore s) \<and>
   \<not> wireframe s \<and> \<not> mat_wireframe (materialStore s ! mesh_material (meshStore s ! me)) \<longrightarrow>
     wireframe (clickWireframe s) \<and>
     mat_wireframe (materialStore (clickWireframe s) ! mesh_material (meshStore s ! me)) \<and>
     localStorage (clickWireframe s) ''wireframe'' = Some ''true'' \<and>
     \<not> wireframe (clickWireframe (clickWireframe s)) \<and>
     mat_wireframe (materialStore (clickWireframe (clickWireframe s)) ! mesh_material (meshStore s ! me)) =
       mat_wireframe (materialStore s ! mesh_material (meshStore s ! me)) \<and>
     localStorage (clickWireframe (clickWireframe s)) ''wireframe'' = Some ''false'' \<and>
     mesh_material (meshStore (clickWireframe (clickWireframe s)) ! me) = mesh_material (meshStore s ! me)"
proof
  assume a: "currentMeshRef s = Some me \<and> me < length (meshStore s) \<and>
   mesh_material (meshStore s ! me) < length (materialStore s) \<and>
   \<not> wireframe s \<and> \<not> mat_wireframe (materialStore s ! mesh_material (meshStore s ! me))"
  then have m: "currentMeshRef s = Some me" by simp
  have m': "currentMeshRef (clickWireframe s) = Some me"
    by (simp add: clickWireframe_closed [OF m] m)
  from a show "wireframe (clickWireframe s) \<and>
     mat_wireframe (materialStore (clickWireframe s) ! mesh_material (meshStore s ! me)) \<and>
     localStorage (clickWireframe s) ''wireframe'' = Some ''true'' \<and>
     \<not> wireframe (clickWireframe (clickWireframe s)) \<and>
     mat_wireframe (materialStore (clickWireframe (clickWireframe s)) ! mesh_material (meshStore s ! me)) =
       mat_wireframe (materialStore s ! mesh_material (meshStore s ! me)) \<and>
     localStorage (clickWireframe (clickWireframe s)) ''wireframe'' = Some ''false'' \<and>
     mesh_material (meshStore (clickWireframe (clickWireframe s)) ! me) = mesh_material (meshStore s ! me)"
    unfolding clickWireframe_closed [OF m']
    unfolding clickWireframe_closed [OF m]
    by (simp add: String_of_bool_def)
qed

text \<open>C6 after mounting with an empty store.\<close>

theorem wireframe_round_trip_witness:
  "currentMeshRef example_mounted = Some 0 \<and> 0 < length (meshStore example_mounted) \<and>
   mesh_material (meshStore example_mounted ! 0) < length (materialStore example_mounted) \<and>
   \<not> wireframe example_mounted \<and>
   \<not> mat_wireframe (materialStore example_mounted ! mesh_material (meshStore example_mounted ! 0)) \<and>
   mat_wireframe (materialStore (clickWireframe example_mounted) ! 0) \<and>
   localStorage (clickWireframe example_mounted) ''wireframe'' = Some ''true'' \<and>
   \<not> mat_wireframe (materialStore (clickWireframe (clickWireframe example_mounted)) ! 0) \<and>
   localStorage (clickWireframe (clickWireframe example_mounted)) ''wireframe'' = Some ''false''"
proof -
  have h: "currentMeshRef example_mounted = Some 0 \<and> 0 < length (meshStore example_mounted) \<and>
      mesh_material (meshStore example_mounted ! 0) < length (materialStore example_mounted) \<and>
      \<not> wireframe example_mounted \<and>
      \<not> mat_wireframe (materialStore example_mounted ! mesh_material (meshStore example_mounted ! 0))"
    by (simp add: example_mounted_facts)
  from wireframe_round_trip [where s = example_mounted and me = 0, THEN mp, OF h]
  show ?thesis using h by (simp add: example_mounted_facts)
qed

text \<open>The cleanup function in one assignment, for any state and any captured environment.\<close>

lemma cleanup_closed:
  "cleanup env s =
     s\<lparr>resizeListeners := remove1 env (resizeListeners s),
       rafPending :=
         (case animRef s of
            None \<Rightarrow> rafPending s
          | Some h \<Rightarrow> if h \<noteq> 0 then filter (\<lambda>p. fst p \<noteq> h) (rafPending s) else rafPending s),
       rendererStore := (rendererStore s)
         [env_renderer env := (rendererStore s ! env_renderer env)
            \<lparr>r_disposeCalls := Suc (r_disposeCalls (rendererStore s ! env_renderer env))\<rparr>],
       geometryStore := (geometryStore s)
         [env_geometry env := (geometryStore s ! env_geometry env)
            \<lparr>g_disposeCalls := Suc (g_disposeCalls (geometryStore s ! env_geometry env))\<rparr>],
       materialStore := (materialStore s)
         [env_material env := (materialStore s ! env_material env)
            \<lparr>mat_disposeCalls := Suc (mat_disposeCalls (materialStore s ! env_material env))\<rparr>],
       sceneStore := (sceneStore s)
         [env_scene env := (sceneStore s ! env_scene env)\<lparr>sc_children := []\<rparr>],
       trace := trace s @
         [ConsoleLog LogCleanup, RemoveResizeListener env] @
         (case animRef s of
            None \<Rightarrow> []
          | Some h \<Rightarrow> if h \<noteq> 0 then [CancelAnimationFrame h] else []) @
         [RendererDispose (env_renderer env), GeometryDispose (env_geometry env),
          MaterialDispose (env_material env), SceneClear (env_scene env)]\<rparr>"
proof (cases "animRef s")
  case None
  show ?thesis
    unfolding cleanup_def
    apply (rule let_run, (simp add: None host_defs three_defs; fail))+
    apply (simp add: None host_defs three_defs)
    done
next
  case (Some h)
  show ?thesis
  proof (cases "h = 0")
    case True
    show ?thesis
      unfolding cleanup_def
      apply (rule let_run, (simp add: Some True host_defs three_defs; fail))+
      apply (simp add: Some True host_defs three_defs)
      done
  next
    case False
    show ?thesis
      unfolding cleanup_def
      apply (rule let_run, (simp add: Some False host_defs three_defs; fail))+
      apply (simp add: Some False host_defs three_defs)
      done
  qed
qed

text \<open>
  Who writes the preference cells.  Every handler, effect and callback other than the
  two sync effects returns them as it found them; the proofs walk each body once.
\<close>

lemma prefs_replaceGeometry: "prefs (replaceGeometry (new_geometry c) s) = prefs s"
proof (cases "currentMeshRef s")
  case None
  then show ?thesis by (simp add: replaceGeometry_def)
next
  case (Some me)
  show ?thesis by (simp add: replaceGeometry_closed [OF Some] prefs_def)
qed

lemma prefs_clickGeometry: "prefs (clickGeometry k s) = prefs s"
proof -
  obtain entry c where e: "map_of geometries k = Some entry" "create entry = new_geometry c"
    using catalog_map_of by blast
  show ?thesis by (simp add: clickGeometry_def e prefs_replaceGeometry)
qed

lemma prefs_animate: "prefs (animate env s) = prefs s"
  by (simp add: animate_closed prefs_def)

lemma prefs_fold_animate:
  "prefs (foldl (\<lambda>s' p. animate (snd p) s') s ps) = prefs s"
  by (induction ps arbitrary: s) (simp_all add: prefs_animate)

lemma prefs_fireFrame: "prefs (fireFrame s) = prefs s"
  unfolding fireFrame_def prefs_fold_animate by (simp add: prefs_def)

lemma prefs_handleResize: "prefs (handleResize env s) = prefs s"
  by (simp add: handleResize_def prefs_def set_camera_aspect_def updateProjectionMatrix_def
      renderer_setSize_def emit_def split_def Let_def split: option.splits)

lemma prefs_fold_handleResize:
  "prefs (foldl (\<lambda>s' cb. handleResize cb s') s cbs) = prefs s"
  by (induction cbs arbitrary: s) (simp_all add: prefs_handleResize)

lemma prefs_windowResize: "prefs (windowResize rect s) = prefs s"
  unfolding windowResize_def Let_def prefs_fold_handleResize by (simp add: prefs_def)

lemma prefs_applyWireframeEffect: "prefs (applyWireframeEffect s) = prefs s"
  by (simp add: applyWireframeEffect_closed prefs_def split: option.splits)

lemma prefs_cleanup: "prefs (cleanup env s) = prefs s"
  by (simp add: cleanup_closed prefs_def)

lemma prefs_unmount: "prefs (unmount s) = prefs s"
  by (simp add: unmount_def prefs_def cleanup_closed split: option.splits)

lemma let_run_prefs: "e = v \<Longrightarrow> prefs (f v) = r \<Longrightarrow> prefs (Let e f) = r"
  by simp

lemma let_run_pair_prefs: "e = (a, b) \<Longrightarrow> prefs (g a b) = r \<Longrightarrow> prefs (Let e (case_prod g)) = r"
  by simp

lemma prefs_initSceneEffect: "prefs (initSceneEffect s) = prefs s"
proof (cases "mountRef s")
  case None
  then show ?thesis by (simp add: initSceneEffect_def)
next
  case (Some el)
  obtain w h where r: "el_rect el = (w, h)" by (cases "el_rect el")
  show ?thesis
  proof (cases "rendererRef s")
    case None
    show ?thesis
      unfolding initSceneEffect_def
      apply (simp only: Some option.case)
      apply ((rule let_run_pair_prefs | rule let_run_prefs),
         (simp add: r None animate_closed host_defs three_defs; fail))+
      apply (simp add: prefs_def)
      done
  next
    case old: (Some old)
    show ?thesis
    proof (cases "old \<in> set (el_children el)")
      case True
      show ?thesis
        unfolding initSceneEffect_def
        apply (simp only: Some option.case)
        apply ((rule let_run_pair_prefs | rule let_run_prefs),
           (simp add: r old True animate_closed host_defs three_defs; fail))+
        apply (simp add: prefs_def)
        done
    next
      case False
      show ?thesis
        unfolding initSceneEffect_def
        apply (simp only: Some option.case)
        apply ((rule let_run_pair_prefs | rule let_run_prefs),
           (simp add: r old False animate_closed host_defs three_defs; fail))+
        apply (simp add: prefs_def)
        done
    qed
  qed
qed

lemma prefs_clickWireframe:
  "prefs (clickWireframe s) = (\<not> wireframe s, autoRotate s, \<not> wireframe s, autoRotateRef s)"
proof -
  have "prefs (clickWireframe s) = prefs (syncWireframeEffect (s\<lparr>wireframe := \<not> wireframe s\<rparr>))"
    by (simp add: clickWireframe_def prefs_applyWireframeEffect)
  then show ?thesis by (simp add: syncWireframeEffect_closed prefs_def)
qed

lemma prefs_clickAutoRotate:
  "prefs (clickAutoRotate s) = (wireframe s, \<not> autoRotate s, wireframeRef s, \<not> autoRotate s)"
  by (simp add: clickAutoRotate_def syncAutoRotateEffect_closed prefs_def)

lemma synced_step:
  assumes "wireframeRef s = wireframe s \<and> autoRotateRef s = autoRotate s"
  shows "wireframeRef (step a s) = wireframe (step a s) \<and> autoRotateRef (step a s) = autoRotate (step a s)"
proof (cases a)
  case (ClickGeometry k)
  with assms prefs_clickGeometry [of k s] show ?thesis by (simp add: prefs_def)
next
  case ClickAutoRotate
  with assms prefs_clickAutoRotate [of s] show ?thesis by (simp add: prefs_def)
next
  case ClickWireframe
  with assms prefs_clickWireframe [of s] show ?thesis by (simp add: prefs_def)
next
  case AnimationFrame
  with assms prefs_fireFrame [of s] show ?thesis by (simp add: prefs_def)
next
  case (WindowResize rect)
  with assms prefs_windowResize [of rect s] show ?thesis by (simp add: prefs_def)
qed

lemma synced_run:
  "wireframeRef s = wireframe s \<and> autoRotateRef s = autoRotate s \<Longrightarrow>
   wireframeRef (run acts s) = wireframe (run acts s) \<and>
   autoRotateRef (run acts s) = autoRotate (run acts s)"
  unfolding run_def
proof (induction acts arbitrary: s)
  case Nil
  then show ?case by simp
next
  case (Cons a acts)
  from Cons.IH [OF synced_step [OF Cons.prems, of a]] show ?case by simp
qed

lemma synced_mount:
  "wireframeRef (mount store dpr rect) = wireframe (mount store dpr rect) \<and>
   autoRotateRef (mount store dpr rect) = autoRotate (mount store dpr rect)"
  by (cases rect) (simp add: mount_closed)

text \<open>
  C8.  The mirror cells start equal to the state cells, and they are equal in every
  state that mounting and any sequence of clicks, frames and resize events reaches.
  A click on a toggle negates its state cell, and after the commit the mirror cell
  holds the new value, from whatever state; the other mirror cell is not touched.
  Nothing else writes a mirror cell (or a state cell): the scene effect, the
  apply-wireframe effect, geometry replacement, the frame callback, the resize handler
  and the cleanup function leave all four cells as they were.
\<close>

theorem mirror_cells_synced:
  "wireframeRef (initial_render store dpr) = wireframe (initial_render store dpr) \<and>
   autoRotateRef (initial_render store dpr) = autoRotate (initial_render store dpr) \<and>
   wireframeRef (run acts (mount store dpr rect)) = wireframe (run acts (mount store dpr rect)) \<and>
   autoRotateRef (run acts (mount store dpr rect)) = autoRotate (run acts (mount store dpr rect)) \<and>
   wireframe (clickWireframe s) = (\<not> wireframe s) \<and>
   wireframeRef (clickWireframe s) = wireframe (clickWireframe s) \<and>
   autoRotate (clickAutoRotate s) = (\<not> autoRotate s) \<and>
   autoRotateRef (clickAutoRotate s) = autoRotate (clickAutoRotate s) \<and>
   autoRotateRef (clickWireframe s) = autoRotateRef s \<and>
   wireframeRef (clickAutoRotate s) = wireframeRef s \<and>
   prefs (initSceneEffect s) = prefs s \<and>
   prefs (applyWireframeEffect s) = prefs s \<and>
   prefs (clickGeometry k s) = prefs s \<and>
   prefs (animate env s) = prefs s \<and>
   prefs (fireFrame s) = prefs s \<and>
   prefs (handleResize env s) = prefs s \<and>
   prefs (windowResize r s) = prefs s \<and>
   prefs (cleanup env s) = prefs s \<and>
   prefs (unmount s) = prefs s"
proof -
  have "wireframeRef (initial_render store dpr) = wireframe (initial_render store dpr) \<and>
      autoRotateRef (initial_render store dpr) = autoRotate (initial_render store dpr)"
    by (simp add: initial_render_closed)
  moreover have "wireframeRef (run acts (mount store dpr rect)) = wireframe (run acts (mount store dpr rect)) \<and>
      autoRotateRef (run acts (mount store dpr rect)) = autoRotate (run acts (mount store dpr rect))"
    by (rule synced_run [OF synced_mount])
  moreover have "wireframe (clickWireframe s) = (\<not> wireframe s) \<and>
      wireframeRef (clickWireframe s) = wireframe (clickWireframe s) \<and>
      autoRotateRef (clickWireframe s) = autoRotateRef s"
    using prefs_clickWireframe [of s] by (simp add: prefs_def)
  moreover have "autoRotate (clickAutoRotate s) = (\<not> autoRotate s) \<and>
      autoRotateRef (clickAutoRotate s) = autoRotate (clickAutoRotate s) \<and>
      wireframeRef (clickAutoRotate s) = wireframeRef s"
    using prefs_clickAutoRotate [of s] by (simp add: prefs_def)
  ultimately show ?thesis
    by (simp add: prefs_initSceneEffect prefs_applyWireframeEffect prefs_clickGeometry
        prefs_animate prefs_fireFrame prefs_handleResize prefs_windowResize prefs_cleanup
        prefs_unmount)
qed

text \<open>
  The invariant of mounted states: it holds after mounting and every click, frame and
  resize event keeps it.  Only a geometry click adds a shape.
\<close>

lemma mount_inv: "mounted_inv (mount store dpr rect)"
  by (cases rect) (simp add: mount_closed mounted_inv_def env0_def)

lemma clickGeometry_inv:
  assumes "mounted_inv s"
  shows "mounted_inv (clickGeometry k s) \<and>
    length (geometryStore (clickGeometry k s)) = Suc (length (geometryStore s))"
proof -
  obtain entry c where e: "map_of geometries k = Some entry" "create entry = new_geometry c"
    using catalog_map_of by blast
  from assms have m: "currentMeshRef s = Some 0" by (simp add: mounted_inv_def)
  have r: "clickGeometry k s = replaceGeometry (new_geometry c) s"
    by (simp add: clickGeometry_def e)
  from assms show ?thesis
    unfolding r replaceGeometry_closed [OF m]
    by (auto simp add: mounted_inv_def nth_append nth_list_update)
qed

lemma clickAutoRotate_inv:
  "mounted_inv s \<Longrightarrow> mounted_inv (clickAutoRotate s) \<and>
     geometryStore (clickAutoRotate s) = geometryStore s"
  by (simp add: mounted_inv_def clickAutoRotate_def syncAutoRotateEffect_closed)

lemma clickWireframe_inv:
  assumes "mounted_inv s"
  shows "mounted_inv (clickWireframe s) \<and> geometryStore (clickWireframe s) = geometryStore s"
proof -
  from assms have m: "currentMeshRef s = Some 0" by (simp add: mounted_inv_def)
  from assms show ?thesis
    unfolding clickWireframe_closed [OF m] by (simp add: mounted_inv_def)
qed

lemma fireFrame_inv:
  assumes "mounted_inv s"
  shows "mounted_inv (fireFrame s) \<and> geometryStore (fireFrame s) = geometryStore s"
proof -
  from assms have p: "rafPending s = [(rafLast s, env0)]" by (simp add: mounted_inv_def)
  from assms show ?thesis
    unfolding fireFrame_single [OF p] by (simp add: mounted_inv_def)
qed

lemma windowResize_inv:
  assumes "mounted_inv s"
  shows "mounted_inv (windowResize rect s) \<and> geometryStore (windowResize rect s) = geometryStore s"
proof -
  from assms have l: "resizeListeners s = [env0]" by (simp add: mounted_inv_def)
  from assms show ?thesis
    by (simp add: windowResize_def l handleResize_def mounted_inv_def set_camera_aspect_def
        updateProjectionMatrix_def renderer_setSize_def emit_def split_def Let_def
        split: option.splits)
qed

lemma step_inv:
  "mounted_inv s \<Longrightarrow> mounted_inv (step a s) \<and>
     length (geometryStore s) \<le> length (geometryStore (step a s))"
  by (cases a) (simp_all add: clickGeometry_inv clickAutoRotate_inv clickWireframe_inv
      fireFrame_inv windowResize_inv)

lemma run_inv:
  "mounted_inv s \<Longrightarrow> mounted_inv (run acts s) \<and>
     length (geometryStore s) \<le> length (geometryStore (run acts s))"
  unfolding run_def
proof (induction acts arbitrary: s)
  case Nil
  then show ?case by simp
next
  case (Cons a acts)
  from step_inv [OF Cons.prems, of a] Cons.IH [of "step a s"] show ?case by auto
qed

lemma run_replaced:
  "mounted_inv s \<Longrightarrow> ClickGeometry k \<in> set acts \<Longrightarrow>
     length (geometryStore s) < length (geometryStore (run acts s))"
proof (induction acts arbitrary: s)
  case Nil
  then show ?case by simp
next
  case (Cons a acts)
  have r: "run (a # acts) s = run acts (step a s)" by (simp add: run_def)
  show ?case
  proof (cases "a = ClickGeometry k")
    case True
    have "length (geometryStore (step a s)) = Suc (length (geometryStore s))"
      using clickGeometry_inv [OF Cons.prems(1), of k] True by simp
    moreover have "length (geometryStore (step a s)) \<le> length (geometryStore (run acts (step a s)))"
      using run_inv [of "step a s" acts] step_inv [OF Cons.prems(1), of a] by simp
    ultimately show ?thesis unfolding r by simp
  next
    case False
    with Cons.prems have "ClickGeometry k \<in> set acts" by simp
    from Cons.IH [OF _ this, of "step a s"] step_inv [OF Cons.prems(1), of a]
    show ?thesis unfolding r by simp
  qed
qed

lemma unmount_mounted:
  assumes "mounted_inv s"
  shows "emitted s (unmount s) =
      [ConsoleLog LogCleanup, RemoveResizeListener env0, CancelAnimationFrame (rafLast s),
       RendererDispose 0, GeometryDispose 0, MaterialDispose 0, SceneClear 0]"
    and "geometryStore (unmount s) =
      (geometryStore s)[0 := (geometryStore s ! 0)\<lparr>g_disposeCalls := Suc (g_disposeCalls (geometryStore s ! 0))\<rparr>]"
    and "materialStore (unmount s) =
      (materialStore s)[0 := (materialStore s ! 0)\<lparr>mat_disposeCalls := Suc (mat_disposeCalls (materialStore s ! 0))\<rparr>]"
    and "meshStore (unmount s) = meshStore s"
  using assms
  by (simp_all add: mounted_inv_def unmount_def cleanup_closed emitted_def env0_def)

text \<open>
  A run without a geometry click still has the cube attached, and then the teardown
  disposes the attached shape, once.
\<close>

lemma run_not_replaced:
  "mounted_inv s \<Longrightarrow> \<forall>k. ClickGeometry k \<notin> set acts \<Longrightarrow>
     geometryStore (run acts s) = geometryStore s"
proof (induction acts arbitrary: s)
  case Nil
  then show ?case by (simp add: run_def)
next
  case (Cons a acts)
  have r: "run (a # acts) s = run acts (step a s)" by (simp add: run_def)
  from Cons.prems(2) have n: "\<forall>k. a \<noteq> ClickGeometry k" "\<forall>k. ClickGeometry k \<notin> set acts"
    by auto
  from n(1) Cons.prems(1) have g: "geometryStore (step a s) = geometryStore s"
    by (cases a) (simp_all add: clickAutoRotate_inv clickWireframe_inv fireFrame_inv
        windowResize_inv)
  from Cons.IH [OF _ n(2), of "step a s"] step_inv [OF Cons.prems(1), of a] g
  show ?case unfolding r by simp
qed

lemma teardown_without_replacement:
  assumes "\<forall>k. ClickGeometry k \<notin> set acts"
  shows "emitted (run acts (mount store dpr rect)) (unmount (run acts (mount store dpr rect))) =
     [ConsoleLog LogCleanup, RemoveResizeListener env0,
      CancelAnimationFrame (rafLast (run acts (mount store dpr rect))),
      RendererDispose 0,
      GeometryDispose (mesh_geometry (meshStore (run acts (mount store dpr rect)) ! 0)),
      MaterialDispose (mesh_material (meshStore (run acts (mount store dpr rect)) ! 0)),
      SceneClear 0] \<and>
    g_disposeCalls (geometryStore (unmount (run acts (mount store dpr rect)))
      ! mesh_geometry (meshStore (run acts (mount store dpr rect)) ! 0)) = 1"
proof -
  let ?s = "run acts (mount store dpr rect)"
  have i: "mounted_inv ?s" using run_inv [OF mount_inv] by simp
  have "geometryStore ?s = geometryStore (mount store dpr rect)"
    by (rule run_not_replaced [OF mount_inv assms])
  moreover have "length (geometryStore (mount store dpr rect)) = 1"
    by (cases rect) (simp add: mount_closed)
  ultimately have l: "length (geometryStore ?s) = 1" by simp
  with i have q: "mesh_geometry (meshStore ?s ! 0) = 0" "mesh_material (meshStore ?s ! 0) = 0"
    "g_disposeCalls (geometryStore ?s ! 0) = 0"
    by (simp_all add: mounted_inv_def)
  from l q show ?thesis
    unfolding unmount_mounted(1) [OF i] unmount_mounted(2) [OF i] by simp
qed

text \<open>
  C10.  After mounting and any sequence of clicks, frames and resize events, the
  cleanup closure is the one over the objects of initialisation: geometry 0, the cube
  the scene effect created, and material 0, which is still the material of the mesh.
  Unmounting calls \<^verbatim>\<open>dispose\<close> on exactly these.  So when the geometry was replaced at
  least once, the shape attached to the mesh is another one than the cube, no
  \<^verbatim>\<open>dispose\<close> call of the teardown reaches it (its count stays 0), and the cube, already
  disposed once by the first replacement, is disposed a second time.
\<close>

theorem teardown_disposes_captured:
  "sceneCleanup (run acts (mount store dpr rect)) = Some env0 \<and>
   env_geometry env0 = 0 \<and> env_material env0 = 0 \<and>
   g_ctor (geometryStore (mount store dpr rect) ! 0) = BoxGeometry 1.5 1.5 1.5 \<and>
   g_ctor (geometryStore (run acts (mount store dpr rect)) ! 0) = BoxGeometry 1.5 1.5 1.5 \<and>
   currentMeshRef (run acts (mount store dpr rect)) = Some 0 \<and>
   mesh_material (meshStore (run acts (mount store dpr rect)) ! 0) = 0 \<and>
   emitted (run acts (mount store dpr rect)) (unmount (run acts (mount store dpr rect))) =
     [ConsoleLog LogCleanup, RemoveResizeListener env0,
      CancelAnimationFrame (rafLast (run acts (mount store dpr rect))),
      RendererDispose 0, GeometryDispose 0, MaterialDispose 0, SceneClear 0] \<and>
   (ClickGeometry k \<in> set acts \<longrightarrow>
      mesh_geometry (meshStore (run acts (mount store dpr rect)) ! 0) \<noteq> 0 \<and>
      mesh_geometry (meshStore (run acts (mount store dpr rect)) ! 0)
        < length (geometryStore (run acts (mount store dpr rect))) \<and>
      GeometryDispose (mesh_geometry (meshStore (run acts (mount store dpr rect)) ! 0))
        \<notin> set (emitted (run acts (mount store dpr rect)) (unmount (run acts (mount store dpr rect)))) \<and>
      g_disposeCalls (geometryStore (run acts (mount store dpr rect))
        ! mesh_geometry (meshStore (run acts (mount store dpr rect)) ! 0)) = 0 \<and>
      g_disposeCalls (geometryStore (unmount (run acts (mount store dpr rect)))
        ! mesh_geometry (meshStore (run acts (mount store dpr rect)) ! 0)) = 0 \<and>
      g_disposeCalls (geometryStore (run acts (mount store dpr rect)) ! 0) = 1 \<and>
      count_list (emitted (run acts (mount store dpr rect)) (unmount (run acts (mount store dpr rect))))
        (GeometryDispose 0) = 1 \<and>
      g_disposeCalls (geometryStore (unmount (run acts (mount store dpr rect))) ! 0) = 2)"
proof -
  let ?s = "run acts (mount store dpr rect)"
  have i: "mounted_inv ?s"
    using run_inv [OF mount_inv] by simp
  have m: "g_ctor (geometryStore (mount store dpr rect) ! 0) = BoxGeometry 1.5 1.5 1.5"
    using mount_inv [of store dpr rect] by (simp add: mounted_inv_def)
  have l1: "length (geometryStore (mount store dpr rect)) = 1"
    by (cases rect) (simp add: mount_closed)
  have e: "emitted ?s (unmount ?s) =
     [ConsoleLog LogCleanup, RemoveResizeListener env0, CancelAnimationFrame (rafLast ?s),
      RendererDispose 0, GeometryDispose 0, MaterialDispose 0, SceneClear 0]"
    by (rule unmount_mounted(1) [OF i])
  have g: "geometryStore (unmount ?s) =
      (geometryStore ?s)[0 := (geometryStore ?s ! 0)\<lparr>g_disposeCalls := Suc (g_disposeCalls (geometryStore ?s ! 0))\<rparr>]"
    by (rule unmount_mounted(2) [OF i])
  have a: "sceneCleanup ?s = Some env0 \<and> env_geometry env0 = 0 \<and> env_material env0 = 0 \<and>
      g_ctor (geometryStore ?s ! 0) = BoxGeometry 1.5 1.5 1.5 \<and>
      currentMeshRef ?s = Some 0 \<and> mesh_material (meshStore ?s ! 0) = 0"
    using i by (simp add: mounted_inv_def env0_def)
  have b: "mesh_geometry (meshStore ?s ! 0) \<noteq> 0 \<and>
      mesh_geometry (meshStore ?s ! 0) < length (geometryStore ?s) \<and>
      GeometryDispose (mesh_geometry (meshStore ?s ! 0)) \<notin> set (emitted ?s (unmount ?s)) \<and>
      g_disposeCalls (geometryStore ?s ! mesh_geometry (meshStore ?s ! 0)) = 0 \<and>
      g_disposeCalls (geometryStore (unmount ?s) ! mesh_geometry (meshStore ?s ! 0)) = 0 \<and>
      g_disposeCalls (geometryStore ?s ! 0) = 1 \<and>
      count_list (emitted ?s (unmount ?s)) (GeometryDispose 0) = 1 \<and>
      g_disposeCalls (geometryStore (unmount ?s) ! 0) = 2"
    if c: "ClickGeometry k \<in> set acts"
  proof -
    have n: "1 < length (geometryStore ?s)"
      using run_replaced [OF mount_inv c, of store dpr rect] l1 by simp
    from i have q: "mesh_geometry (meshStore ?s ! 0) = length (geometryStore ?s) - 1"
      and d: "\<forall>g < length (geometryStore ?s).
        g_disposeCalls (geometryStore ?s ! g) = (if Suc g = length (geometryStore ?s) then 0 else 1)"
      by (simp_all add: mounted_inv_def)
    from n have n0: "0 < length (geometryStore ?s)" by linarith
    from d [rule_format, OF this] n have d0: "g_disposeCalls (geometryStore ?s ! 0) = 1"
      by simp
    from n have nl: "length (geometryStore ?s) - 1 < length (geometryStore ?s)" by linarith
    from n have ne: "length (geometryStore ?s) - 1 \<noteq> 0" by linarith
    from d [rule_format, OF nl] n
    have dl: "g_disposeCalls (geometryStore ?s ! (length (geometryStore ?s) - 1)) = 0"
      by simp
    from n0 nl ne d0 dl show ?thesis
      unfolding e g q by (simp add: q)
  qed
  from a m e b show ?thesis by blast
qed

text \<open>C10 on the run: mount, click the sphere button, unmount.\<close>

theorem teardown_disposes_captured_witness:
  "ClickGeometry Esfera \<in> set [ClickGeometry Esfera] \<and>
   run [ClickGeometry Esfera] (mount Map.empty 1 (800, 600)) = example_replaced \<and>
   mesh_geometry (meshStore example_replaced ! 0) = 1 \<and>
   g_disposeCalls (geometryStore (unmount example_replaced) ! 1) = 0 \<and>
   g_disposeCalls (geometryStore (unmount example_replaced) ! 0) = 2"
proof -
  have r: "run [ClickGeometry Esfera] (mount Map.empty 1 (800, 600)) = example_replaced"
    by (simp add: run_def example_replaced_def example_mounted_def)
  have q: "mesh_geometry (meshStore example_replaced ! 0) = 1"
    by (simp add: example_replaced_closed)
  have h: "ClickGeometry Esfera \<in> set [ClickGeometry Esfera]" by simp
  from teardown_disposes_captured [where acts = "[ClickGeometry Esfera]" and store = Map.empty
      and dpr = 1 and rect = "(800, 600)" and k = Esfera]
  have "ClickGeometry Esfera \<in> set [ClickGeometry Esfera] \<longrightarrow>
      g_disposeCalls (geometryStore (unmount example_replaced)
        ! mesh_geometry (meshStore example_replaced ! 0)) = 0 \<and>
      g_disposeCalls (geometryStore (unmount example_replaced) ! 0) = 2"
    unfolding r by blast
  with h q r show ?thesis by simp
qed

text \<open>
  C2 on the run: mount, click the sphere button, unmount.  The teardown makes its calls
  in the stated order, once each, but its \<^verbatim>\<open>dispose\<close> call on a geometry goes to the
  cube (shape 0), not to the sphere (shape 1) that is attached to the mesh: the sphere
  ends with no dispose call, the cube with two.  Without a replacement the call does
  reach the attached shape (\<open>teardown_without_replacement\<close>).
\<close>

theorem teardown_after_replacement:
  "example_replaced = clickGeometry Esfera (mount Map.empty 1 (800, 600)) \<and>
   emitted example_replaced (unmount example_replaced) =
     [ConsoleLog LogCleanup, RemoveResizeListener env0, CancelAnimationFrame 1,
      RendererDispose 0, GeometryDispose 0, MaterialDispose 0, SceneClear 0] \<and>
   currentMeshRef example_replaced = Some 0 \<and>
   mesh_geometry (meshStore example_replaced ! 0) = 1 \<and>
   g_ctor (geometryStore example_replaced ! 1) = SphereGeometry 1 32 16 \<and>
   g_disposeCalls (geometryStore (unmount example_replaced) ! 1) = 0 \<and>
   g_ctor (geometryStore example_replaced ! 0) = BoxGeometry 1.5 1.5 1.5 \<and>
   g_disposeCalls (geometryStore example_replaced ! 0) = 1 \<and>
   g_disposeCalls (geometryStore (unmount example_replaced) ! 0) = 2"
proof -
  have "example_replaced = clickGeometry Esfera (mount Map.empty 1 (800, 600))"
    by (simp add: example_replaced_def example_mounted_def)
  moreover have "emitted example_replaced (unmount example_replaced) =
     [ConsoleLog LogCleanup, RemoveResizeListener env0, CancelAnimationFrame 1,
      RendererDispose 0, GeometryDispose 0, MaterialDispose 0, SceneClear 0] \<and>
   currentMeshRef example_replaced = Some 0 \<and>
   mesh_geometry (meshStore example_replaced ! 0) = 1 \<and>
   g_ctor (geometryStore example_replaced ! 1) = SphereGeometry 1 32 16 \<and>
   g_disposeCalls (geometryStore (unmount example_replaced) ! 1) = 0 \<and>
   g_ctor (geometryStore example_replaced ! 0) = BoxGeometry 1.5 1.5 1.5 \<and>
   g_disposeCalls (geometryStore example_replaced ! 0) = 1 \<and>
   g_disposeCalls (geometryStore (unmount example_replaced) ! 0) = 2"
    by (simp add: example_replaced_closed example_mounted_closed unmount_def cleanup_closed
        emitted_def env0_def)
  ultimately show ?thesis by (rule conjI)
qed

end
